theory Spec2Isabelle
  imports Main "HOL-Library.Word"
begin

section \<open>Python values\<close>

text \<open>
  A Python \<open>str\<close> is modelled by the \<^typ>\<open>string\<close> of its UTF-8 bytes. The program only
  compares and concatenates strings, and both operations agree on code points and on
  their UTF-8 encoding. ASCII literals are written as they are in the source; a Cyrillic
  literal is written byte by byte and glossed in English beside its definition.

  \<open>pyval\<close> holds the Python values of the program. The first seven are what
  \<open>response.json()\<close> can return: \<open>None\<close>, a \<open>bool\<close>, an \<open>int\<close>, a \<open>float\<close> (an IEEE double,
  kept as its 64 bits), a \<open>str\<close>, a \<open>list\<close>, or a \<open>dict\<close> with string keys (an association
  list in insertion order, read with \<^const>\<open>map_of\<close>). The last is a \<open>set\<close> of strings, which
  only \<open>parse_status\<close> builds, for its \<open>missing_keys\<close>.
\<close>

datatype pyval =
    PNone
  | PBool bool
  | PInt int
  | PFloat "64 word"
  | PStr string
  | PList "pyval list"
  | PDict "(string \<times> pyval) list"
  | PSet "string set"

text \<open>\<open>isinstance(v, dict)\<close>, \<open>isinstance(v, list)\<close>.\<close>

fun is_dict :: "pyval \<Rightarrow> bool" where
  "is_dict (PDict d) = True"
| "is_dict v = False"

fun is_list :: "pyval \<Rightarrow> bool" where
  "is_list (PList xs) = True"
| "is_list v = False"

text \<open>\<open>isinstance(v, int)\<close>: \<open>bool\<close> is a subclass of \<open>int\<close> in Python.\<close>

fun is_int :: "pyval \<Rightarrow> bool" where
  "is_int (PInt i) = True"
| "is_int (PBool b) = True"
| "is_int v = False"

text \<open>A \<open>list\<close>, a \<open>dict\<close> or a \<open>set\<close> has no hash; every other value has one.\<close>

fun hashable :: "pyval \<Rightarrow> bool" where
  "hashable (PList xs) = False"
| "hashable (PDict d) = False"
| "hashable (PSet s) = False"
| "hashable v = True"

text \<open>Truth value of an object, as \<open>if\<close> tests it.\<close>

fun truthy :: "pyval \<Rightarrow> bool" where
  "truthy PNone = False"
| "truthy (PBool b) = b"
| "truthy (PInt i) = (i \<noteq> 0)"
| "truthy (PFloat w) = (w \<noteq> 0 \<and> w \<noteq> 0x8000000000000000)"
| "truthy (PStr s) = (s \<noteq> [])"
| "truthy (PList xs) = (xs \<noteq> [])"
| "truthy (PDict d) = (d \<noteq> [])"
| "truthy (PSet s) = (s \<noteq> {})"

text \<open>\<open>str(n)\<close> for an integer: decimal digits, with a minus sign when negative.\<close>

function str_nat :: "nat \<Rightarrow> string" where
  "str_nat n = (if n < 10 then [char_of (48 + n)]
                else str_nat (n div 10) @ [char_of (48 + n mod 10)])"
  by pat_completeness auto
termination
  by (relation "measure (\<lambda>n. n)") auto

declare str_nat.simps [simp del]

definition str_int :: "int \<Rightarrow> string" where
  "str_int i = (if i < 0 then CHR ''-'' # str_nat (nat (- i)) else str_nat (nat i))"

text \<open>
  \<open>str(v)\<close>, as an f-string formats a value. The text of a \<open>float\<close>, a \<open>list\<close>, a \<open>dict\<close>
  or a \<open>set\<close> is not modelled: the parameter \<open>other\<close> supplies it. For a set this covers
  the order in which Python prints the elements, which depends on the hash seed of the
  process.
\<close>

definition py_str :: "(pyval \<Rightarrow> string) \<Rightarrow> pyval \<Rightarrow> string" where
  "py_str other v =
     (case v of
        PStr s \<Rightarrow> s
      | PNone \<Rightarrow> ''None''
      | PBool b \<Rightarrow> (if b then ''True'' else ''False'')
      | PInt i \<Rightarrow> str_int i
      | _ \<Rightarrow> other v)"

section \<open>Exceptions\<close>

text \<open>
  The classes of the exceptions a cycle can meet, all of them subclasses of \<open>Exception\<close>:
  the three of \<open>exceptions.py\<close>; the built-in \<open>TypeError\<close>, \<open>KeyError\<close> and
  \<open>ConnectionError\<close>; the family of \<open>requests.RequestException\<close> (with the library's own
  \<open>ConnectionError\<close>, \<open>Timeout\<close> and \<open>JSONDecodeError\<close>, which derive from it and not from
  the built-in \<open>ConnectionError\<close>); the family of \<open>telegram.error.TelegramError\<close> (with
  \<open>NetworkError\<close>, the library's class for transport failures, \<open>TimedOut\<close>, and
  \<open>InvalidToken\<close>, which the constructor of the bot raises for a malformed token); and
  \<open>OtherException\<close> for any subclass of \<open>Exception\<close> outside these families.
  An exception carries its text: the constructor's argument, which is \<open>str(e)\<close> for the
  library exceptions that the handlers format.
\<close>

datatype exc_class =
    SendMessageError
  | EndpointStatusError
  | EndPointError
  | TypeError
  | KeyError
  | ConnectionError
  | RequestException
  | RequestsConnectionError
  | RequestsTimeout
  | RequestsJSONDecodeError
  | TelegramError
  | NetworkError
  | TimedOut
  | InvalidToken
  | OtherException

datatype exn = Exn (cls: exc_class) (msg: string)

text \<open>\<open>isinstance(e, requests.RequestException)\<close>.\<close>

fun is_RequestException :: "exc_class \<Rightarrow> bool" where
  "is_RequestException RequestException = True"
| "is_RequestException RequestsConnectionError = True"
| "is_RequestException RequestsTimeout = True"
| "is_RequestException RequestsJSONDecodeError = True"
| "is_RequestException c = False"

text \<open>\<open>isinstance(e, ConnectionError)\<close>, the built-in class.\<close>

fun is_ConnectionError :: "exc_class \<Rightarrow> bool" where
  "is_ConnectionError ConnectionError = True"
| "is_ConnectionError c = False"

text \<open>\<open>isinstance(e, telegram.error.TelegramError)\<close>.\<close>

fun is_TelegramError :: "exc_class \<Rightarrow> bool" where
  "is_TelegramError TelegramError = True"
| "is_TelegramError NetworkError = True"
| "is_TelegramError TimedOut = True"
| "is_TelegramError InvalidToken = True"
| "is_TelegramError c = False"

section \<open>Constants and message texts\<close>

definition RETRY_PERIOD :: int where
  "RETRY_PERIOD = 600"

definition ENDPOINT :: string where
  "ENDPOINT = ''https://practicum.yandex.ru/api/user_api/homework_statuses/''"

text \<open>
  The verdict phrases, in the order of the table: "Work checked: the reviewer liked
  everything. Hurray!", "Work taken for checking by the reviewer.", "Work checked: the
  reviewer has remarks.".
\<close>

definition verdict_approved :: string where
  "verdict_approved =
     [CHR 0xD0, CHR 0xA0, CHR 0xD0, CHR 0xB0, CHR 0xD0, CHR 0xB1, CHR 0xD0, CHR 0xBE,
     CHR 0xD1, CHR 0x82, CHR 0xD0, CHR 0xB0] @ '' '' @ [CHR 0xD0, CHR 0xBF, CHR 0xD1,
     CHR 0x80, CHR 0xD0, CHR 0xBE, CHR 0xD0, CHR 0xB2, CHR 0xD0, CHR 0xB5, CHR 0xD1,
     CHR 0x80, CHR 0xD0, CHR 0xB5, CHR 0xD0, CHR 0xBD, CHR 0xD0, CHR 0xB0] @ '': ''
     @ [CHR 0xD1, CHR 0x80, CHR 0xD0, CHR 0xB5, CHR 0xD0, CHR 0xB2, CHR 0xD1, CHR 0x8C,
     CHR 0xD1, CHR 0x8E, CHR 0xD0, CHR 0xB5, CHR 0xD1, CHR 0x80, CHR 0xD1, CHR 0x83]
     @ '' '' @ [CHR 0xD0, CHR 0xB2, CHR 0xD1, CHR 0x81, CHR 0xD1, CHR 0x91] @ '' ''
     @ [CHR 0xD0, CHR 0xBF, CHR 0xD0, CHR 0xBE, CHR 0xD0, CHR 0xBD, CHR 0xD1, CHR 0x80,
     CHR 0xD0, CHR 0xB0, CHR 0xD0, CHR 0xB2, CHR 0xD0, CHR 0xB8, CHR 0xD0, CHR 0xBB,
     CHR 0xD0, CHR 0xBE, CHR 0xD1, CHR 0x81, CHR 0xD1, CHR 0x8C] @ ''. '' @ [CHR 0xD0,
     CHR 0xA3, CHR 0xD1, CHR 0x80, CHR 0xD0, CHR 0xB0] @ ''!''"

definition verdict_reviewing :: string where
  "verdict_reviewing =
     [CHR 0xD0, CHR 0xA0, CHR 0xD0, CHR 0xB0, CHR 0xD0, CHR 0xB1, CHR 0xD0, CHR 0xBE,
     CHR 0xD1, CHR 0x82, CHR 0xD0, CHR 0xB0] @ '' '' @ [CHR 0xD0, CHR 0xB2, CHR 0xD0,
     CHR 0xB7, CHR 0xD1, CHR 0x8F, CHR 0xD1, CHR 0x82, CHR 0xD0, CHR 0xB0] @ '' ''
     @ [CHR 0xD0, CHR 0xBD, CHR 0xD0, CHR 0xB0] @ '' '' @ [CHR 0xD0, CHR 0xBF,
     CHR 0xD1, CHR 0x80, CHR 0xD0, CHR 0xBE, CHR 0xD0, CHR 0xB2, CHR 0xD0, CHR 0xB5,
     CHR 0xD1, CHR 0x80, CHR 0xD0, CHR 0xBA, CHR 0xD1, CHR 0x83] @ '' '' @ [CHR 0xD1,
     CHR 0x80, CHR 0xD0, CHR 0xB5, CHR 0xD0, CHR 0xB2, CHR 0xD1, CHR 0x8C, CHR 0xD1,
     CHR 0x8E, CHR 0xD0, CHR 0xB5, CHR 0xD1, CHR 0x80, CHR 0xD0, CHR 0xBE, CHR 0xD0,
     CHR 0xBC] @ ''.''"

definition verdict_rejected :: string where
  "verdict_rejected =
     [CHR 0xD0, CHR 0xA0, CHR 0xD0, CHR 0xB0, CHR 0xD0, CHR 0xB1, CHR 0xD0, CHR 0xBE,
     CHR 0xD1, CHR 0x82, CHR 0xD0, CHR 0xB0] @ '' '' @ [CHR 0xD0, CHR 0xBF, CHR 0xD1,
     CHR 0x80, CHR 0xD0, CHR 0xBE, CHR 0xD0, CHR 0xB2, CHR 0xD0, CHR 0xB5, CHR 0xD1,
     CHR 0x80, CHR 0xD0, CHR 0xB5, CHR 0xD0, CHR 0xBD, CHR 0xD0, CHR 0xB0] @ '': ''
     @ [CHR 0xD1, CHR 0x83] @ '' '' @ [CHR 0xD1, CHR 0x80, CHR 0xD0, CHR 0xB5,
     CHR 0xD0, CHR 0xB2, CHR 0xD1, CHR 0x8C, CHR 0xD1, CHR 0x8E, CHR 0xD0, CHR 0xB5,
     CHR 0xD1, CHR 0x80, CHR 0xD0, CHR 0xB0] @ '' '' @ [CHR 0xD0, CHR 0xB5, CHR 0xD1,
     CHR 0x81, CHR 0xD1, CHR 0x82, CHR 0xD1, CHR 0x8C] @ '' '' @ [CHR 0xD0, CHR 0xB7,
     CHR 0xD0, CHR 0xB0, CHR 0xD0, CHR 0xBC, CHR 0xD0, CHR 0xB5, CHR 0xD1, CHR 0x87,
     CHR 0xD0, CHR 0xB0, CHR 0xD0, CHR 0xBD, CHR 0xD0, CHR 0xB8, CHR 0xD1, CHR 0x8F]
     @ ''.''"

definition HOMEWORK_VERDICTS :: "(string \<times> string) list" where
  "HOMEWORK_VERDICTS =
     [(''approved'', verdict_approved),
      (''reviewing'', verdict_reviewing),
      (''rejected'', verdict_rejected)]"

text \<open>
  "The status of the work check has changed " (with its final space; line 229), and
  "No works under review." (line 260).
\<close>

definition text_status_changed :: string where
  "text_status_changed =
     [CHR 0xD0, CHR 0x98, CHR 0xD0, CHR 0xB7, CHR 0xD0, CHR 0xBC, CHR 0xD0, CHR 0xB5,
     CHR 0xD0, CHR 0xBD, CHR 0xD0, CHR 0xB8, CHR 0xD0, CHR 0xBB, CHR 0xD1, CHR 0x81,
     CHR 0xD1, CHR 0x8F] @ '' '' @ [CHR 0xD1, CHR 0x81, CHR 0xD1, CHR 0x82, CHR 0xD0,
     CHR 0xB0, CHR 0xD1, CHR 0x82, CHR 0xD1, CHR 0x83, CHR 0xD1, CHR 0x81] @ '' ''
     @ [CHR 0xD0, CHR 0xBF, CHR 0xD1, CHR 0x80, CHR 0xD0, CHR 0xBE, CHR 0xD0, CHR 0xB2,
     CHR 0xD0, CHR 0xB5, CHR 0xD1, CHR 0x80, CHR 0xD0, CHR 0xBA, CHR 0xD0, CHR 0xB8]
     @ '' '' @ [CHR 0xD1, CHR 0x80, CHR 0xD0, CHR 0xB0, CHR 0xD0, CHR 0xB1, CHR 0xD0,
     CHR 0xBE, CHR 0xD1, CHR 0x82, CHR 0xD1, CHR 0x8B] @ '' ''"

definition text_no_homeworks :: string where
  "text_no_homeworks =
     [CHR 0xD0, CHR 0xA0, CHR 0xD0, CHR 0xB0, CHR 0xD0, CHR 0xB1, CHR 0xD0, CHR 0xBE,
     CHR 0xD1, CHR 0x82] @ '' '' @ [CHR 0xD0, CHR 0xBD, CHR 0xD0, CHR 0xB0] @ '' ''
     @ [CHR 0xD0, CHR 0xBF, CHR 0xD1, CHR 0x80, CHR 0xD0, CHR 0xBE, CHR 0xD0, CHR 0xB2,
     CHR 0xD0, CHR 0xB5, CHR 0xD1, CHR 0x80, CHR 0xD0, CHR 0xBA, CHR 0xD0, CHR 0xB5]
     @ '' '' @ [CHR 0xD0, CHR 0xBD, CHR 0xD0, CHR 0xB5, CHR 0xD1, CHR 0x82] @ ''.''"

text \<open>
  The texts of \<open>check_response\<close>: "The data type is not a dictionary.", "The API answer
  has no key 'homeworks'", "The data type is not a list of dictionaries.", "The data
  type is not an integer.".
\<close>

definition text_not_dict :: string where
  "text_not_dict =
     [CHR 0xD0, CHR 0xA2, CHR 0xD0, CHR 0xB8, CHR 0xD0, CHR 0xBF] @ '' '' @ [CHR 0xD0,
     CHR 0xB4, CHR 0xD0, CHR 0xB0, CHR 0xD0, CHR 0xBD, CHR 0xD0, CHR 0xBD, CHR 0xD1,
     CHR 0x8B, CHR 0xD1, CHR 0x85] @ '' '' @ [CHR 0xD0, CHR 0xBD, CHR 0xD0, CHR 0xB5]
     @ '' '' @ [CHR 0xD1, CHR 0x8F, CHR 0xD0, CHR 0xB2, CHR 0xD0, CHR 0xBB, CHR 0xD1,
     CHR 0x8F, CHR 0xD0, CHR 0xB5, CHR 0xD1, CHR 0x82, CHR 0xD1, CHR 0x81, CHR 0xD1,
     CHR 0x8F] @ '' '' @ [CHR 0xD1, CHR 0x81, CHR 0xD0, CHR 0xBB, CHR 0xD0, CHR 0xBE,
     CHR 0xD0, CHR 0xB2, CHR 0xD0, CHR 0xB0, CHR 0xD1, CHR 0x80, CHR 0xD0, CHR 0xB5,
     CHR 0xD0, CHR 0xBC] @ ''.''"

definition text_no_homeworks_key :: string where
  "text_no_homeworks_key =
     [CHR 0xD0, CHR 0x9E, CHR 0xD1, CHR 0x82, CHR 0xD0, CHR 0xB2, CHR 0xD0, CHR 0xB5,
     CHR 0xD1, CHR 0x82] @ '' API '' @ [CHR 0xD0, CHR 0xBD, CHR 0xD0, CHR 0xB5] @ '' ''
     @ [CHR 0xD1, CHR 0x81, CHR 0xD0, CHR 0xBE, CHR 0xD0, CHR 0xB4, CHR 0xD0, CHR 0xB5,
     CHR 0xD1, CHR 0x80, CHR 0xD0, CHR 0xB6, CHR 0xD0, CHR 0xB8, CHR 0xD1, CHR 0x82]
     @ '' '' @ [CHR 0xD0, CHR 0xBA, CHR 0xD0, CHR 0xBB, CHR 0xD1, CHR 0x8E, CHR 0xD1,
     CHR 0x87, CHR 0xD0, CHR 0xB0] @ '' '' @ [CHR 0x27] @ ''homeworks'' @ [CHR 0x27]"

definition text_not_list_of_dict :: string where
  "text_not_list_of_dict =
     [CHR 0xD0, CHR 0xA2, CHR 0xD0, CHR 0xB8, CHR 0xD0, CHR 0xBF] @ '' '' @ [CHR 0xD0,
     CHR 0xB4, CHR 0xD0, CHR 0xB0, CHR 0xD0, CHR 0xBD, CHR 0xD0, CHR 0xBD, CHR 0xD1,
     CHR 0x8B, CHR 0xD1, CHR 0x85] @ '' '' @ [CHR 0xD0, CHR 0xBD, CHR 0xD0, CHR 0xB5]
     @ '' '' @ [CHR 0xD1, CHR 0x8F, CHR 0xD0, CHR 0xB2, CHR 0xD0, CHR 0xBB, CHR 0xD1,
     CHR 0x8F, CHR 0xD0, CHR 0xB5, CHR 0xD1, CHR 0x82, CHR 0xD1, CHR 0x81, CHR 0xD1,
     CHR 0x8F] @ '' '' @ [CHR 0xD1, CHR 0x81, CHR 0xD0, CHR 0xBF, CHR 0xD0, CHR 0xB8,
     CHR 0xD1, CHR 0x81, CHR 0xD0, CHR 0xBA, CHR 0xD0, CHR 0xBE, CHR 0xD0, CHR 0xBC]
     @ '' '' @ [CHR 0xD1, CHR 0x81, CHR 0xD0, CHR 0xBB, CHR 0xD0, CHR 0xBE, CHR 0xD0,
     CHR 0xB2, CHR 0xD0, CHR 0xB0, CHR 0xD1, CHR 0x80, CHR 0xD0, CHR 0xB5, CHR 0xD0,
     CHR 0xB9] @ ''.''"

definition text_not_int :: string where
  "text_not_int =
     [CHR 0xD0, CHR 0xA2, CHR 0xD0, CHR 0xB8, CHR 0xD0, CHR 0xBF] @ '' '' @ [CHR 0xD0,
     CHR 0xB4, CHR 0xD0, CHR 0xB0, CHR 0xD0, CHR 0xBD, CHR 0xD0, CHR 0xBD, CHR 0xD1,
     CHR 0x8B, CHR 0xD1, CHR 0x85] @ '' '' @ [CHR 0xD0, CHR 0xBD, CHR 0xD0, CHR 0xB5]
     @ '' '' @ [CHR 0xD1, CHR 0x8F, CHR 0xD0, CHR 0xB2, CHR 0xD0, CHR 0xBB, CHR 0xD1,
     CHR 0x8F, CHR 0xD0, CHR 0xB5, CHR 0xD1, CHR 0x82, CHR 0xD1, CHR 0x81, CHR 0xD1,
     CHR 0x8F] @ '' '' @ [CHR 0xD1, CHR 0x86, CHR 0xD0, CHR 0xB5, CHR 0xD0, CHR 0xBB,
     CHR 0xD1, CHR 0x8B, CHR 0xD0, CHR 0xBC] @ '' '' @ [CHR 0xD1, CHR 0x87, CHR 0xD0,
     CHR 0xB8, CHR 0xD1, CHR 0x81, CHR 0xD0, CHR 0xBB, CHR 0xD0, CHR 0xBE, CHR 0xD0,
     CHR 0xBC] @ ''.''"

text \<open>
  The texts of \<open>parse_status\<close>: "Keys missing " and " in the dictionary 'homework'" around
  the set of missing keys, and "Unknown status - ".
\<close>

definition text_missing_keys :: string where
  "text_missing_keys =
     [CHR 0xD0, CHR 0x9E, CHR 0xD1, CHR 0x82, CHR 0xD1, CHR 0x81, CHR 0xD1, CHR 0x83,
     CHR 0xD1, CHR 0x82, CHR 0xD1, CHR 0x81, CHR 0xD1, CHR 0x82, CHR 0xD0, CHR 0xB2,
     CHR 0xD1, CHR 0x83, CHR 0xD1, CHR 0x8E, CHR 0xD1, CHR 0x82] @ '' '' @ [CHR 0xD0,
     CHR 0xBA, CHR 0xD0, CHR 0xBB, CHR 0xD1, CHR 0x8E, CHR 0xD1, CHR 0x87, CHR 0xD0,
     CHR 0xB8] @ '' ''"

definition text_in_homework_dict :: string where
  "text_in_homework_dict =
     '' '' @ [CHR 0xD0, CHR 0xB2] @ '' '' @ [CHR 0xD1, CHR 0x81, CHR 0xD0, CHR 0xBB,
     CHR 0xD0, CHR 0xBE, CHR 0xD0, CHR 0xB2, CHR 0xD0, CHR 0xB0, CHR 0xD1, CHR 0x80,
     CHR 0xD0, CHR 0xB5] @ '' '' @ [CHR 0x27] @ ''homework'' @ [CHR 0x27]"

definition text_unknown_status :: string where
  "text_unknown_status =
     [CHR 0xD0, CHR 0x9D, CHR 0xD0, CHR 0xB5, CHR 0xD0, CHR 0xB8, CHR 0xD0, CHR 0xB7,
     CHR 0xD0, CHR 0xB2, CHR 0xD0, CHR 0xB5, CHR 0xD1, CHR 0x81, CHR 0xD1, CHR 0x82,
     CHR 0xD0, CHR 0xBD, CHR 0xD1, CHR 0x8B, CHR 0xD0, CHR 0xB9] @ '' '' @ [CHR 0xD1,
     CHR 0x81, CHR 0xD1, CHR 0x82, CHR 0xD0, CHR 0xB0, CHR 0xD1, CHR 0x82, CHR 0xD1,
     CHR 0x83, CHR 0xD1, CHR 0x81] @ '' - ''"

text \<open>The text of \<open>send_message\<close>: "Could not send the message: ".\<close>

definition text_send_failed :: string where
  "text_send_failed =
     [CHR 0xD0, CHR 0x9D, CHR 0xD0, CHR 0xB5] @ '' '' @ [CHR 0xD1, CHR 0x83, CHR 0xD0,
     CHR 0xB4, CHR 0xD0, CHR 0xB0, CHR 0xD0, CHR 0xBB, CHR 0xD0, CHR 0xBE, CHR 0xD1,
     CHR 0x81, CHR 0xD1, CHR 0x8C] @ '' '' @ [CHR 0xD0, CHR 0xBE, CHR 0xD1, CHR 0x82,
     CHR 0xD0, CHR 0xBF, CHR 0xD1, CHR 0x80, CHR 0xD0, CHR 0xB0, CHR 0xD0, CHR 0xB2,
     CHR 0xD0, CHR 0xB8, CHR 0xD1, CHR 0x82, CHR 0xD1, CHR 0x8C] @ '' '' @ [CHR 0xD1,
     CHR 0x81, CHR 0xD0, CHR 0xBE, CHR 0xD0, CHR 0xBE, CHR 0xD0, CHR 0xB1, CHR 0xD1,
     CHR 0x89, CHR 0xD0, CHR 0xB5, CHR 0xD0, CHR 0xBD, CHR 0xD0, CHR 0xB8, CHR 0xD0,
     CHR 0xB5] @ '': ''"

text \<open>
  The texts of \<open>get_api_answer\<close>: "Could not get an answer from ", "with parameters ",
  "Request code - ", "Error performing the request to ", "Could not establish a
  connection with ", ". Check the internet connection.".
\<close>

definition text_no_answer_from :: string where
  "text_no_answer_from =
     [CHR 0xD0, CHR 0x9D, CHR 0xD0, CHR 0xB5] @ '' '' @ [CHR 0xD1, CHR 0x83, CHR 0xD0,
     CHR 0xB4, CHR 0xD0, CHR 0xB0, CHR 0xD0, CHR 0xBB, CHR 0xD0, CHR 0xBE, CHR 0xD1,
     CHR 0x81, CHR 0xD1, CHR 0x8C] @ '' '' @ [CHR 0xD0, CHR 0xBF, CHR 0xD0, CHR 0xBE,
     CHR 0xD0, CHR 0xBB, CHR 0xD1, CHR 0x83, CHR 0xD1, CHR 0x87, CHR 0xD0, CHR 0xB8,
     CHR 0xD1, CHR 0x82, CHR 0xD1, CHR 0x8C] @ '' '' @ [CHR 0xD0, CHR 0xBE, CHR 0xD1,
     CHR 0x82, CHR 0xD0, CHR 0xB2, CHR 0xD0, CHR 0xB5, CHR 0xD1, CHR 0x82] @ '' ''
     @ [CHR 0xD0, CHR 0xBE, CHR 0xD1, CHR 0x82] @ '' ''"

definition text_with_params :: string where
  "text_with_params =
     [CHR 0xD1, CHR 0x81] @ '' '' @ [CHR 0xD0, CHR 0xBF, CHR 0xD0, CHR 0xB0, CHR 0xD1,
     CHR 0x80, CHR 0xD0, CHR 0xB0, CHR 0xD0, CHR 0xBC, CHR 0xD0, CHR 0xB5, CHR 0xD1,
     CHR 0x82, CHR 0xD1, CHR 0x80, CHR 0xD0, CHR 0xB0, CHR 0xD0, CHR 0xBC, CHR 0xD0,
     CHR 0xB8] @ '' ''"

definition text_request_code :: string where
  "text_request_code =
     [CHR 0xD0, CHR 0x9A, CHR 0xD0, CHR 0xBE, CHR 0xD0, CHR 0xB4] @ '' '' @ [CHR 0xD0,
     CHR 0xB7, CHR 0xD0, CHR 0xB0, CHR 0xD0, CHR 0xBF, CHR 0xD1, CHR 0x80, CHR 0xD0,
     CHR 0xBE, CHR 0xD1, CHR 0x81, CHR 0xD0, CHR 0xB0] @ '' - ''"

definition text_request_error :: string where
  "text_request_error =
     [CHR 0xD0, CHR 0x9E, CHR 0xD1, CHR 0x88, CHR 0xD0, CHR 0xB8, CHR 0xD0, CHR 0xB1,
     CHR 0xD0, CHR 0xBA, CHR 0xD0, CHR 0xB0] @ '' '' @ [CHR 0xD0, CHR 0xB2, CHR 0xD1,
     CHR 0x8B, CHR 0xD0, CHR 0xBF, CHR 0xD0, CHR 0xBE, CHR 0xD0, CHR 0xBB, CHR 0xD0,
     CHR 0xBD, CHR 0xD0, CHR 0xB5, CHR 0xD0, CHR 0xBD, CHR 0xD0, CHR 0xB8, CHR 0xD1,
     CHR 0x8F] @ '' '' @ [CHR 0xD0, CHR 0xB7, CHR 0xD0, CHR 0xB0, CHR 0xD0, CHR 0xBF,
     CHR 0xD1, CHR 0x80, CHR 0xD0, CHR 0xBE, CHR 0xD1, CHR 0x81, CHR 0xD0, CHR 0xB0]
     @ '' '' @ [CHR 0xD0, CHR 0xBA] @ '' ''"

definition text_no_connection :: string where
  "text_no_connection =
     [CHR 0xD0, CHR 0x9D, CHR 0xD0, CHR 0xB5] @ '' '' @ [CHR 0xD1, CHR 0x83, CHR 0xD0,
     CHR 0xB4, CHR 0xD0, CHR 0xB0, CHR 0xD0, CHR 0xBB, CHR 0xD0, CHR 0xBE, CHR 0xD1,
     CHR 0x81, CHR 0xD1, CHR 0x8C] @ '' '' @ [CHR 0xD1, CHR 0x83, CHR 0xD1, CHR 0x81,
     CHR 0xD1, CHR 0x82, CHR 0xD0, CHR 0xB0, CHR 0xD0, CHR 0xBD, CHR 0xD0, CHR 0xBE,
     CHR 0xD0, CHR 0xB2, CHR 0xD0, CHR 0xB8, CHR 0xD1, CHR 0x82, CHR 0xD1, CHR 0x8C]
     @ '' '' @ [CHR 0xD1, CHR 0x81, CHR 0xD0, CHR 0xBE, CHR 0xD0, CHR 0xB5, CHR 0xD0,
     CHR 0xB4, CHR 0xD0, CHR 0xB8, CHR 0xD0, CHR 0xBD, CHR 0xD0, CHR 0xB5, CHR 0xD0,
     CHR 0xBD, CHR 0xD0, CHR 0xB8, CHR 0xD0, CHR 0xB5] @ '' '' @ [CHR 0xD1, CHR 0x81]
     @ '' ''"

definition text_check_internet :: string where
  "text_check_internet =
     ''. '' @ [CHR 0xD0, CHR 0x9F, CHR 0xD1, CHR 0x80, CHR 0xD0, CHR 0xBE, CHR 0xD0,
     CHR 0xB2, CHR 0xD0, CHR 0xB5, CHR 0xD1, CHR 0x80, CHR 0xD1, CHR 0x8C, CHR 0xD1,
     CHR 0x82, CHR 0xD0, CHR 0xB5] @ '' '' @ [CHR 0xD0, CHR 0xB8, CHR 0xD0, CHR 0xBD,
     CHR 0xD1, CHR 0x82, CHR 0xD0, CHR 0xB5, CHR 0xD1, CHR 0x80, CHR 0xD0, CHR 0xBD,
     CHR 0xD0, CHR 0xB5, CHR 0xD1, CHR 0x82] @ ''-'' @ [CHR 0xD1, CHR 0x81, CHR 0xD0,
     CHR 0xBE, CHR 0xD0, CHR 0xB5, CHR 0xD0, CHR 0xB4, CHR 0xD0, CHR 0xB8, CHR 0xD0,
     CHR 0xBD, CHR 0xD0, CHR 0xB5, CHR 0xD0, CHR 0xBD, CHR 0xD0, CHR 0xB8, CHR 0xD0,
     CHR 0xB5] @ ''.''"

section \<open>The external capabilities\<close>

text \<open>
  What the network does in one cycle is an input of the model. \<open>requests.get\<close> either
  raises or returns a response with a status code, whose \<open>json()\<close> either raises or
  returns a value. \<open>bot.send_message\<close> either returns or raises.
\<close>

datatype http_outcome =
    HttpRaises exn
  | HttpResponse int "exn + pyval"

datatype send_outcome =
    SendOk
  | SendRaises exn

record cycle_env =
  http :: http_outcome
  telegram :: send_outcome

section \<open>check_tokens\<close>

text \<open>
  The three module constants are \<open>os.getenv\<close> results: \<open>None\<close> or a string. The function
  returns \<open>tokens_filled\<close> when it is true and falls off its end otherwise, which returns
  \<open>None\<close>.
\<close>

record tokens =
  PRACTICUM_TOKEN :: "string option"
  TELEGRAM_TOKEN :: "string option"
  TELEGRAM_CHAT_ID :: "string option"

definition check_tokens :: "tokens \<Rightarrow> pyval" where
  "check_tokens env =
     (let token_data =
            [(''PRACTICUM_TOKEN'', PRACTICUM_TOKEN env),
             (''TELEGRAM_TOKEN'', TELEGRAM_TOKEN env),
             (''TELEGRAM_CHAT_ID'', TELEGRAM_CHAT_ID env)];
          tokens_filled = list_all (\<lambda>(_, value). value \<noteq> None) token_data
      in if tokens_filled then PBool tokens_filled else PNone)"

section \<open>send_message\<close>

text \<open>
  The handler catches \<open>telegram.error.TelegramError\<close> and raises \<open>SendMessageError\<close> with
  the text of the caught exception; any other exception leaves the function as it is.
\<close>

definition send_message :: "send_outcome \<Rightarrow> string \<Rightarrow> exn + unit" where
  "send_message bot' message =
     (case bot' of
        SendOk \<Rightarrow> Inr ()
      | SendRaises e \<Rightarrow>
          if is_TelegramError (cls e)
          then Inl (Exn SendMessageError (text_send_failed @ msg e))
          else Inl e)"

section \<open>get_api_answer\<close>

text \<open>
  The text of line 126: the payload \<open>{"from_date": timestamp}\<close> is shown through
  \<open>payload.values()\<close>, that is \<open>dict_values([timestamp])\<close>.
\<close>

definition status_message :: "int \<Rightarrow> int \<Rightarrow> string" where
  "status_message timestamp status_code =
     text_no_answer_from @ ENDPOINT @ '' '' @
     text_with_params @ ''dict_values(['' @ str_int timestamp @ ''])'' @ ''. '' @
     text_request_code @ str_int status_code @ ''.''"

text \<open>
  The two handlers of the \<open>try\<close>, in the order of the source: what leaves the function
  when the body raised \<open>e\<close>.
\<close>

definition request_handlers :: "exn \<Rightarrow> exn" where
  "request_handlers e =
     (if is_RequestException (cls e)
      then Exn EndPointError (text_request_error @ ENDPOINT @ '': '' @ msg e)
      else if is_ConnectionError (cls e)
      then Exn ConnectionError
             (text_no_connection @ ENDPOINT @ '': '' @ msg e @ text_check_internet)
      else e)"

definition get_api_answer :: "http_outcome \<Rightarrow> int \<Rightarrow> exn + pyval" where
  "get_api_answer get timestamp =
     (case get of
        HttpRaises e \<Rightarrow> Inl (request_handlers e)
      | HttpResponse status_code json \<Rightarrow>
          if status_code \<noteq> 200
          then Inl (request_handlers
                      (Exn EndpointStatusError (status_message timestamp status_code)))
          else (case json of
                  Inl e \<Rightarrow> Inl (request_handlers e)
                | Inr v \<Rightarrow> Inr v))"

section \<open>check_response\<close>

text \<open>
  \<open>all(isinstance(item, dict) for item in homeworks)\<close>, returning the dictionaries when it
  holds, so that the result has the declared type \<open>List[Dict[str, Any]]\<close>.
\<close>

fun dicts_of :: "pyval list \<Rightarrow> (string \<times> pyval) list list option" where
  "dicts_of [] = Some []"
| "dicts_of (PDict d # items) = map_option ((#) d) (dicts_of items)"
| "dicts_of (v # items) = None"

text \<open>
  Lines 178 and 179 read both keys before the \<open>if\<close> chain of line 181; the subscript
  \<open>response["current_date"]\<close> raises \<open>KeyError('current_date')\<close> when the key is missing.
\<close>

definition check_response :: "pyval \<Rightarrow> exn + (string \<times> pyval) list list" where
  "check_response response =
     (case response of
        PDict d \<Rightarrow>
          (case map_of d ''homeworks'' of
             None \<Rightarrow> Inl (Exn KeyError text_no_homeworks_key)
           | Some homeworks \<Rightarrow>
               (case map_of d ''current_date'' of
                  None \<Rightarrow> Inl (Exn KeyError ''current_date'')
                | Some current_date \<Rightarrow>
                    (case homeworks of
                       PList items \<Rightarrow>
                         (case dicts_of items of
                            None \<Rightarrow> Inl (Exn TypeError text_not_list_of_dict)
                          | Some ds \<Rightarrow>
                              if \<not> is_int current_date
                              then Inl (Exn TypeError text_not_int)
                              else Inr ds)
                     | _ \<Rightarrow> Inl (Exn TypeError text_not_list_of_dict))))
      | _ \<Rightarrow> Inl (Exn TypeError text_not_dict))"

section \<open>parse_status\<close>

text \<open>
  Lines 213 and 215: the set \<open>required_keys\<close>, and the set \<open>missing_keys\<close>, which is
  \<open>required_keys - set(homework.keys())\<close>.
\<close>

definition required_keys :: "string set" where
  "required_keys = {''homework_name'', ''status''}"

definition missing_keys :: "(string \<times> pyval) list \<Rightarrow> string set" where
  "missing_keys homework = required_keys - fst ` set homework"

text \<open>The \<open>TypeError\<close> of a membership test with a key that has no hash.\<close>

definition unhashable_text :: "pyval \<Rightarrow> string" where
  "unhashable_text v =
     ''unhashable type: '' @ [CHR 0x27] @
     (case v of PList xs \<Rightarrow> ''list'' | PSet s \<Rightarrow> ''set'' | _ \<Rightarrow> ''dict'') @
     [CHR 0x27]"

text \<open>
  \<open>homework_status in HOMEWORK_VERDICTS\<close> and \<open>HOMEWORK_VERDICTS[homework_status]\<close>: the keys
  of the table are strings, so only a string can be one of them.
\<close>

definition lookup_verdict :: "pyval \<Rightarrow> string option" where
  "lookup_verdict homework_status =
     (case homework_status of
        PStr s \<Rightarrow> map_of HOMEWORK_VERDICTS s
      | _ \<Rightarrow> None)"

text \<open>
  Both subscripts succeed exactly when \<open>required_keys.issubset(homework)\<close> holds; the
  other case of the model is the branch of line 214, whose text is the f-string of
  line 218 around \<open>missing_keys\<close>.
\<close>

definition parse_status ::
  "(pyval \<Rightarrow> string) \<Rightarrow> (string \<times> pyval) list \<Rightarrow> exn + string" where
  "parse_status other homework =
     (case (map_of homework ''homework_name'', map_of homework ''status'') of
        (Some homework_name, Some homework_status) \<Rightarrow>
          if \<not> hashable homework_status
          then Inl (Exn TypeError (unhashable_text homework_status))
          else (case lookup_verdict homework_status of
                  None \<Rightarrow>
                    Inl (Exn KeyError
                           (text_unknown_status @ py_str other homework_status))
                | Some verdict \<Rightarrow>
                    Inr (text_status_changed @ [CHR 0x22] @
                         py_str other homework_name @ [CHR 0x22] @ ''. '' @ verdict))
      | _ \<Rightarrow>
          Inl (Exn KeyError
                 (text_missing_keys @ py_str other (PSet (missing_keys homework)) @
                  text_in_homework_dict)))"

section \<open>main\<close>

text \<open>
  The two local variables of \<open>main\<close> that live across cycles, and what a cycle does to
  the outside: the \<open>GET\<close> with its \<open>from_date\<close>, the call of \<open>bot.send_message\<close> with its
  text, the error log of the handler of line 262, and the sleep. The log lines inside
  the called functions are not part of the trace.
\<close>

record loop_state =
  timestamp :: int
  last_status :: string

datatype event =
    Get int
  | BotSend string
  | LogError exn
  | Sleep int

text \<open>
  The body of the \<open>try\<close> of line 250: the exception that left it, if any, the state at
  that point, and the calls made.
\<close>

definition cycle_body ::
  "(pyval \<Rightarrow> string) \<Rightarrow> cycle_env \<Rightarrow> loop_state \<Rightarrow> exn option \<times> loop_state \<times> event list" where
  "cycle_body other env st =
     (let got = [Get (timestamp st)] in
      case get_api_answer (http env) (timestamp st) of
        Inl e \<Rightarrow> (Some e, st, got)
      | Inr response \<Rightarrow>
          (case check_response response of
             Inl e \<Rightarrow> (Some e, st, got)
           | Inr homework \<Rightarrow>
               (case homework of
                  first # _ \<Rightarrow>
                    (case parse_status other first of
                       Inl e \<Rightarrow> (Some e, st, got)
                     | Inr homework_status \<Rightarrow>
                         if homework_status \<noteq> last_status st
                         then (case send_message (telegram env) homework_status of
                                 Inl e \<Rightarrow> (Some e, st, got @ [BotSend homework_status])
                               | Inr _ \<Rightarrow>
                                   (None, st\<lparr>last_status := homework_status\<rparr>,
                                    got @ [BotSend homework_status]))
                         else (None, st, got))
                | [] \<Rightarrow>
                    if last_status st = ''''
                    then (case send_message (telegram env) text_no_homeworks of
                            Inl e \<Rightarrow> (Some e, st, got @ [BotSend text_no_homeworks])
                          | Inr _ \<Rightarrow> (None, st, got @ [BotSend text_no_homeworks]))
                    else (None, st, got))))"

text \<open>
  One iteration of \<open>while True\<close>: the body, the handler \<open>except Exception\<close>, which logs
  and goes on, and the \<open>finally\<close> with its sleep. Every value of \<^typ>\<open>exn\<close> is an instance
  of \<open>Exception\<close>, so the handler takes them all; \<open>KeyboardInterrupt\<close> and \<open>SystemExit\<close>,
  which the handler would let through, come from outside the steps and are not modelled.
\<close>

definition cycle ::
  "(pyval \<Rightarrow> string) \<Rightarrow> cycle_env \<Rightarrow> loop_state \<Rightarrow> loop_state \<times> event list" where
  "cycle other env st =
     (case cycle_body other env st of
        (None, st', evs) \<Rightarrow> (st', evs @ [Sleep RETRY_PERIOD])
      | (Some e, st', evs) \<Rightarrow> (st', evs @ [LogError e, Sleep RETRY_PERIOD]))"

text \<open>
  The loop has no exit. The model runs it for as many iterations as it is given
  environments: \<open>run other envs st\<close> is the state and the trace after \<open>length envs\<close>
  iterations.
\<close>

fun run ::
  "(pyval \<Rightarrow> string) \<Rightarrow> cycle_env list \<Rightarrow> loop_state \<Rightarrow> loop_state \<times> event list" where
  "run other [] st = (st, [])"
| "run other (env # envs) st =
     (case cycle other env st of
        (st', evs) \<Rightarrow> (case run other envs st' of (st'', evs') \<Rightarrow> (st'', evs @ evs')))"

text \<open>
  What \<open>telegram.Bot(token=TELEGRAM_TOKEN)\<close> does on line 245 is an input of the model
  too: the constructor returns a bot, or it raises, as the library does with
  \<open>InvalidToken\<close> for a token it finds malformed.
\<close>

datatype bot_outcome =
    BotCreated
  | BotRaises exn

text \<open>
  \<open>main\<close>: without the three tokens the process exits with status 1 before any call.
  With them the bot is constructed, outside any \<open>try\<close>: an exception of the constructor
  ends the process before line 246. Otherwise the loop starts with
  \<open>timestamp = int(time.time())\<close>, here \<open>now\<close>, and \<open>last_status = ""\<close>.
\<close>

definition initial_state :: "int \<Rightarrow> loop_state" where
  "initial_state now = \<lparr>timestamp = now, last_status = ''''\<rparr>"

datatype outcome =
    Exit int
  | Uncaught exn
  | Looping loop_state "event list"

definition main ::
  "(pyval \<Rightarrow> string) \<Rightarrow> tokens \<Rightarrow> bot_outcome \<Rightarrow> int \<Rightarrow> cycle_env list \<Rightarrow> outcome" where
  "main other env new_bot now envs =
     (if truthy (check_tokens env)
      then (case new_bot of
              BotRaises e \<Rightarrow> Uncaught e
            | BotCreated \<Rightarrow>
                (case run other envs (initial_state now) of
                   (st, evs) \<Rightarrow> Looping st evs))
      else Exit 1)"

section \<open>Vocabulary of the properties\<close>

text \<open>All three credentials are present: none of them is \<open>None\<close>.\<close>

definition all_tokens_set :: "tokens \<Rightarrow> bool" where
  "all_tokens_set env =
     (PRACTICUM_TOKEN env \<noteq> None \<and> TELEGRAM_TOKEN env \<noteq> None \<and>
      TELEGRAM_CHAT_ID env \<noteq> None)"

text \<open>
  The notification text of the first end-to-end scenario, byte for byte as the
  specification gives it: the status-changed sentence for \<open>task1\<close> with the phrase of
  \<open>approved\<close>.
\<close>

definition scenario_1_text :: string where
  "scenario_1_text =
     [CHR 0xD0, CHR 0x98, CHR 0xD0, CHR 0xB7, CHR 0xD0, CHR 0xBC, CHR 0xD0, CHR 0xB5,
     CHR 0xD0, CHR 0xBD, CHR 0xD0, CHR 0xB8, CHR 0xD0, CHR 0xBB, CHR 0xD1, CHR 0x81,
     CHR 0xD1, CHR 0x8F] @ '' '' @ [CHR 0xD1, CHR 0x81, CHR 0xD1, CHR 0x82, CHR 0xD0,
     CHR 0xB0, CHR 0xD1, CHR 0x82, CHR 0xD1, CHR 0x83, CHR 0xD1, CHR 0x81] @ '' ''
     @ [CHR 0xD0, CHR 0xBF, CHR 0xD1, CHR 0x80, CHR 0xD0, CHR 0xBE, CHR 0xD0, CHR 0xB2,
     CHR 0xD0, CHR 0xB5, CHR 0xD1, CHR 0x80, CHR 0xD0, CHR 0xBA, CHR 0xD0, CHR 0xB8]
     @ '' '' @ [CHR 0xD1, CHR 0x80, CHR 0xD0, CHR 0xB0, CHR 0xD0, CHR 0xB1, CHR 0xD0,
     CHR 0xBE, CHR 0xD1, CHR 0x82, CHR 0xD1, CHR 0x8B] @ '' '' @ [CHR 0x22] @ ''task1''
     @ [CHR 0x22] @ ''. '' @ [CHR 0xD0, CHR 0xA0, CHR 0xD0, CHR 0xB0, CHR 0xD0,
     CHR 0xB1, CHR 0xD0, CHR 0xBE, CHR 0xD1, CHR 0x82, CHR 0xD0, CHR 0xB0] @ '' ''
     @ [CHR 0xD0, CHR 0xBF, CHR 0xD1, CHR 0x80, CHR 0xD0, CHR 0xBE, CHR 0xD0, CHR 0xB2,
     CHR 0xD0, CHR 0xB5, CHR 0xD1, CHR 0x80, CHR 0xD0, CHR 0xB5, CHR 0xD0, CHR 0xBD,
     CHR 0xD0, CHR 0xB0] @ '': '' @ [CHR 0xD1, CHR 0x80, CHR 0xD0, CHR 0xB5, CHR 0xD0,
     CHR 0xB2, CHR 0xD1, CHR 0x8C, CHR 0xD1, CHR 0x8E, CHR 0xD0, CHR 0xB5, CHR 0xD1,
     CHR 0x80, CHR 0xD1, CHR 0x83] @ '' '' @ [CHR 0xD0, CHR 0xB2, CHR 0xD1, CHR 0x81,
     CHR 0xD1, CHR 0x91] @ '' '' @ [CHR 0xD0, CHR 0xBF, CHR 0xD0, CHR 0xBE, CHR 0xD0,
     CHR 0xBD, CHR 0xD1, CHR 0x80, CHR 0xD0, CHR 0xB0, CHR 0xD0, CHR 0xB2, CHR 0xD0,
     CHR 0xB8, CHR 0xD0, CHR 0xBB, CHR 0xD0, CHR 0xBE, CHR 0xD1, CHR 0x81, CHR 0xD1,
     CHR 0x8C] @ ''. '' @ [CHR 0xD0, CHR 0xA3, CHR 0xD1, CHR 0x80, CHR 0xD0, CHR 0xB0]
     @ ''!''"

text \<open>
  The homeworks sequence a cycle observes: what \<open>check_response\<close> returns for the fetched
  response, when the fetch and the validation both succeed.
\<close>

definition observed_homeworks ::
  "cycle_env \<Rightarrow> int \<Rightarrow> (string \<times> pyval) list list option" where
  "observed_homeworks env ts =
     (case get_api_answer (http env) ts of
        Inl e \<Rightarrow> None
      | Inr response \<Rightarrow>
          (case check_response response of
             Inl e \<Rightarrow> None
           | Inr homework \<Rightarrow> Some homework))"

text \<open>
  The verdict a cycle resolves: the result of \<open>parse_status\<close> on the first work item,
  when there is one and the three steps succeed.
\<close>

definition resolved_verdict ::
  "(pyval \<Rightarrow> string) \<Rightarrow> cycle_env \<Rightarrow> int \<Rightarrow> string option" where
  "resolved_verdict other env ts =
     (case observed_homeworks env ts of
        Some (first # rest) \<Rightarrow>
          (case parse_status other first of
             Inl e \<Rightarrow> None
           | Inr homework_status \<Rightarrow> Some homework_status)
      | _ \<Rightarrow> None)"

text \<open>
  The responses of the first two end-to-end scenarios of the specification: one work
  item \<open>task1\<close> with status \<open>approved\<close>, and no work item.
\<close>

definition scenario_1_response :: pyval where
  "scenario_1_response =
     PDict [(''homeworks'',
             PList [PDict [(''homework_name'', PStr ''task1''), (''status'', PStr ''approved'')]]),
            (''current_date'', PInt 1700000000)]"

definition scenario_2_response :: pyval where
  "scenario_2_response = PDict [(''homeworks'', PList []), (''current_date'', PInt 1700000000)]"

text \<open>
  A choice for the parameter of \<^const>\<open>py_str\<close>, for the concrete runs below, none of which
  formats a \<open>float\<close>, a \<open>list\<close> or a \<open>dict\<close>.
\<close>

definition no_text :: "pyval \<Rightarrow> string" where
  "no_text v = ''''"

text \<open>The requests among the events of a trace.\<close>

fun is_Get :: "event \<Rightarrow> bool" where
  "is_Get (Get ts) = True"
| "is_Get ev = False"

section \<open>Credentials\<close>

text \<open>
  C9. \<open>check_tokens\<close> returns \<open>True\<close> when the three credentials are present and \<open>None\<close>,
  never \<open>False\<close>, when one is missing; its result is truthy exactly when all three are
  set.
\<close>

theorem check_tokens_true_or_none:
  "check_tokens env = (if all_tokens_set env then PBool True else PNone) \<and>
   check_tokens env \<noteq> PBool False \<and>
   truthy (check_tokens env) = all_tokens_set env"
  by (simp add: check_tokens_def all_tokens_set_def)

section \<open>The notifier\<close>

text \<open>
  C3. A transport failure of the messaging library, an instance of \<open>TelegramError\<close>,
  leaves \<open>send_message\<close> as a \<open>SendMessageError\<close> whose text ends with the text of the
  failure; it never leaves as another class.
\<close>

theorem send_message_wraps_transport_failure:
  "is_TelegramError (cls e) \<Longrightarrow>
   send_message (SendRaises e) message =
     Inl (Exn SendMessageError (text_send_failed @ msg e))"
  by (simp add: send_message_def)

theorem send_message_wraps_transport_failure_witness:
  "is_TelegramError (cls (Exn NetworkError ''timed out'')) \<and>
   send_message (SendRaises (Exn NetworkError ''timed out'')) ''hello'' =
     Inl (Exn SendMessageError (text_send_failed @ ''timed out''))"
  using send_message_wraps_transport_failure [of "Exn NetworkError ''timed out''" "''hello''"]
  by simp

section \<open>The fetcher\<close>

text \<open>
  C10. An exception of the family of \<open>RequestException\<close>, raised by \<open>requests.get\<close> or by
  \<open>response.json()\<close>, is caught by the first handler and leaves \<open>get_api_answer\<close> as an
  \<open>EndPointError\<close>; the second handler, which raises \<open>ConnectionError\<close>, is not reached
  for it.
\<close>

theorem request_exception_first_handler:
  "is_RequestException (cls e) \<Longrightarrow>
   get_api_answer (HttpRaises e) ts =
     Inl (Exn EndPointError (text_request_error @ ENDPOINT @ '': '' @ msg e)) \<and>
   get_api_answer (HttpResponse 200 (Inl e)) ts =
     Inl (Exn EndPointError (text_request_error @ ENDPOINT @ '': '' @ msg e)) \<and>
   cls (request_handlers e) \<noteq> ConnectionError"
  by (simp add: get_api_answer_def request_handlers_def)

theorem request_exception_first_handler_witness:
  "is_RequestException (cls (Exn RequestsConnectionError ''refused'')) \<and>
   get_api_answer (HttpRaises (Exn RequestsConnectionError ''refused'')) 1700000000 =
     Inl (Exn EndPointError (text_request_error @ ENDPOINT @ '': '' @ ''refused''))"
  using request_exception_first_handler [of "Exn RequestsConnectionError ''refused''" 1700000000]
  by simp

section \<open>The validator\<close>

lemma dicts_of_map_PDict: "dicts_of (map PDict ds) = Some ds"
  by (induction ds) simp_all

lemma dicts_of_None: "dicts_of items = None \<longleftrightarrow> \<not> list_all is_dict items"
  by (induction items rule: dicts_of.induct) simp_all

text \<open>
  C2, as the specification states it, fails: a response with the key \<open>homeworks\<close> and
  without the key \<open>current_date\<close> raises \<open>KeyError\<close>, not \<open>TypeError\<close>.
\<close>

theorem check_response_missing_current_date_counterexample:
  "check_response (PDict [(''homeworks'', PList [])]) = Inl (Exn KeyError ''current_date'')"
  by (simp add: check_response_def)

text \<open>
  C2, amended. The checks run in this order, the first failure deciding the error:
  the response is a dictionary, else \<open>TypeError\<close>; the key \<open>homeworks\<close> is present, else
  \<open>KeyError\<close>; the key \<open>current_date\<close> is present, else \<open>KeyError\<close>; the value of
  \<open>homeworks\<close> is a list, else \<open>TypeError\<close>; each of its elements is a dictionary, else
  \<open>TypeError\<close>; the value of \<open>current_date\<close> is an integer, else \<open>TypeError\<close>. When all
  hold, the list of work items is returned as it is.
\<close>

theorem check_response_order:
  "(\<not> is_dict response \<longrightarrow>
      check_response response = Inl (Exn TypeError text_not_dict)) \<and>
   (map_of d ''homeworks'' = None \<longrightarrow>
      check_response (PDict d) = Inl (Exn KeyError text_no_homeworks_key)) \<and>
   (map_of d ''homeworks'' = Some homeworks \<and> map_of d ''current_date'' = None \<longrightarrow>
      check_response (PDict d) = Inl (Exn KeyError ''current_date'')) \<and>
   (map_of d ''homeworks'' = Some homeworks \<and>
    map_of d ''current_date'' = Some current_date \<longrightarrow>
      (\<not> is_list homeworks \<longrightarrow>
         check_response (PDict d) = Inl (Exn TypeError text_not_list_of_dict)) \<and>
      (homeworks = PList items \<and> \<not> list_all is_dict items \<longrightarrow>
         check_response (PDict d) = Inl (Exn TypeError text_not_list_of_dict)) \<and>
      (homeworks = PList items \<and> list_all is_dict items \<and> \<not> is_int current_date \<longrightarrow>
         check_response (PDict d) = Inl (Exn TypeError text_not_int)) \<and>
      (homeworks = PList (map PDict ds) \<and> is_int current_date \<longrightarrow>
         check_response (PDict d) = Inr ds))"
proof -
  have not_dict: "\<not> is_dict response \<Longrightarrow>
      check_response response = Inl (Exn TypeError text_not_dict)"
    by (cases response) (simp_all add: check_response_def)
  have not_list: "\<not> is_list homeworks \<Longrightarrow>
      (case homeworks of
         PList items \<Rightarrow> f items
       | _ \<Rightarrow> Inl (Exn TypeError text_not_list_of_dict)) =
      Inl (Exn TypeError text_not_list_of_dict)"
    for f :: "pyval list \<Rightarrow> exn + (string \<times> pyval) list list"
    by (cases homeworks) simp_all
  have not_all: "\<not> list_all is_dict items \<Longrightarrow> dicts_of items = None"
    by (simp add: dicts_of_None)
  have all: "list_all is_dict items \<Longrightarrow> \<exists>ds. dicts_of items = Some ds"
    using dicts_of_None [of items] by (cases "dicts_of items") simp_all
  show ?thesis
    using not_dict not_all all
    by (auto simp add: check_response_def dicts_of_map_PDict not_list)
qed

theorem check_response_order_witness:
  "check_response
     (PDict [(''homeworks'', PList [PDict [(''status'', PStr ''approved'')]]),
             (''current_date'', PInt 1700000000)]) =
     Inr [[(''status'', PStr ''approved'')]] \<and>
   check_response (PDict [(''homeworks'', PList [PInt 1]), (''current_date'', PInt 5)]) =
     Inl (Exn TypeError text_not_list_of_dict) \<and>
   check_response (PDict [(''homeworks'', PList []), (''current_date'', PStr ''now'')]) =
     Inl (Exn TypeError text_not_int) \<and>
   check_response (PDict [(''homeworks'', PInt 1), (''current_date'', PInt 5)]) =
     Inl (Exn TypeError text_not_list_of_dict) \<and>
   check_response (PDict [(''homeworks'', PInt 1)]) = Inl (Exn KeyError ''current_date'') \<and>
   check_response (PDict [(''current_date'', PInt 5)]) =
     Inl (Exn KeyError text_no_homeworks_key) \<and>
   check_response (PList []) = Inl (Exn TypeError text_not_dict)"
  using check_response_order
          [where response = "PList []"
             and d = "[(''homeworks'', PList [PDict [(''status'', PStr ''approved'')]]),
                       (''current_date'', PInt 1700000000)]"
             and homeworks = "PList [PDict [(''status'', PStr ''approved'')]]"
             and current_date = "PInt 1700000000"
             and items = "[PDict [(''status'', PStr ''approved'')]]"
             and ds = "[[(''status'', PStr ''approved'')]]"]
        check_response_order
          [where response = "PList []"
             and d = "[(''homeworks'', PList [PInt 1]), (''current_date'', PInt 5)]"
             and homeworks = "PList [PInt 1]" and current_date = "PInt 5"
             and items = "[PInt 1]" and ds = "[]"]
        check_response_order
          [where response = "PList []"
             and d = "[(''homeworks'', PList []), (''current_date'', PStr ''now'')]"
             and homeworks = "PList []" and current_date = "PStr ''now''"
             and items = "[]" and ds = "[]"]
        check_response_order
          [where response = "PList []"
             and d = "[(''homeworks'', PInt 1), (''current_date'', PInt 5)]"
             and homeworks = "PInt 1" and current_date = "PInt 5"
             and items = "[]" and ds = "[]"]
        check_response_order
          [where response = "PList []" and d = "[(''homeworks'', PInt 1)]"
             and homeworks = "PInt 1" and current_date = "PInt 5"
             and items = "[]" and ds = "[]"]
        check_response_order
          [where response = "PList []" and d = "[(''current_date'', PInt 5)]"
             and homeworks = "PInt 1" and current_date = "PInt 5"
             and items = "[]" and ds = "[]"]
  by simp

section \<open>The status resolver\<close>

text \<open>
  The branch of line 214 is taken exactly when a required key is missing, and its
  error carries the text of the set of the missing keys.
\<close>

lemma parse_status_missing_keys:
  "\<not> required_keys \<subseteq> fst ` set homework \<longleftrightarrow>
     map_of homework ''homework_name'' = None \<or> map_of homework ''status'' = None"
  by (auto simp add: required_keys_def map_of_eq_None_iff)

lemma parse_status_missing:
  "\<not> required_keys \<subseteq> fst ` set homework \<Longrightarrow>
   parse_status other homework =
     Inl (Exn KeyError
            (text_missing_keys @ py_str other (PSet (missing_keys homework)) @
             text_in_homework_dict))"
  unfolding parse_status_missing_keys
  by (auto simp add: parse_status_def split: option.splits)

lemma lookup_verdict_unknown:
  "v \<notin> {PStr ''approved'', PStr ''reviewing'', PStr ''rejected''} \<Longrightarrow> lookup_verdict v = None"
  by (cases v) (simp_all add: lookup_verdict_def HOMEWORK_VERDICTS_def)

lemma scenario_1_text_parts:
  "scenario_1_text =
     text_status_changed @ [CHR 0x22] @ ''task1'' @ [CHR 0x22] @ ''. '' @ verdict_approved"
  by (simp add: scenario_1_text_def text_status_changed_def verdict_approved_def)

lemma parse_status_known:
  "map_of HOMEWORK_VERDICTS status = Some verdict \<Longrightarrow>
   map_of homework ''homework_name'' = Some (PStr name) \<Longrightarrow>
   map_of homework ''status'' = Some (PStr status) \<Longrightarrow>
   parse_status other homework =
     Inr (text_status_changed @ [CHR 0x22] @ name @ [CHR 0x22] @ ''. '' @ verdict)"
  by (simp add: parse_status_def lookup_verdict_def py_str_def)

lemma parse_status_unknown:
  "map_of homework ''homework_name'' = Some homework_name \<Longrightarrow>
   map_of homework ''status'' = Some homework_status \<Longrightarrow>
   hashable homework_status \<Longrightarrow>
   homework_status \<notin> {PStr ''approved'', PStr ''reviewing'', PStr ''rejected''} \<Longrightarrow>
   parse_status other homework =
     Inl (Exn KeyError (text_unknown_status @ py_str other homework_status))"
  using lookup_verdict_unknown [of homework_status] by (simp add: parse_status_def)

lemma verdict_table:
  "map_of HOMEWORK_VERDICTS ''approved'' = Some verdict_approved"
  "map_of HOMEWORK_VERDICTS ''reviewing'' = Some verdict_reviewing"
  "map_of HOMEWORK_VERDICTS ''rejected'' = Some verdict_rejected"
  by (simp_all add: HOMEWORK_VERDICTS_def)

text \<open>
  C7. The work item of the first scenario resolves to the text of the specification.
  For a work item with both keys, a name that is a string, and a status among
  \<open>approved\<close>, \<open>reviewing\<close> and \<open>rejected\<close>, the verdict is the status-changed
  sentence with the name in double quotes, a full stop, a space and the phrase of the
  table for that status. For a status outside the table, \<open>parse_status\<close> raises a
  \<open>KeyError\<close> whose text names the status, and returns no verdict; this holds for a
  status that is a string and for any other status that has a hash.
\<close>

theorem parse_status_verdicts:
  "parse_status other [(''homework_name'', PStr ''task1''), (''status'', PStr ''approved'')] =
     Inr scenario_1_text \<and>
   (map_of homework ''homework_name'' = Some (PStr name) \<and>
    map_of homework ''status'' = Some (PStr status) \<longrightarrow>
      (status = ''approved'' \<longrightarrow>
         parse_status other homework =
           Inr (text_status_changed @ [CHR 0x22] @ name @ [CHR 0x22] @ ''. '' @ verdict_approved)) \<and>
      (status = ''reviewing'' \<longrightarrow>
         parse_status other homework =
           Inr (text_status_changed @ [CHR 0x22] @ name @ [CHR 0x22] @ ''. '' @ verdict_reviewing)) \<and>
      (status = ''rejected'' \<longrightarrow>
         parse_status other homework =
           Inr (text_status_changed @ [CHR 0x22] @ name @ [CHR 0x22] @ ''. '' @ verdict_rejected)) \<and>
      (status \<notin> {''approved'', ''reviewing'', ''rejected''} \<longrightarrow>
         parse_status other homework = Inl (Exn KeyError (text_unknown_status @ status)))) \<and>
   (map_of homework ''homework_name'' = Some homework_name \<and>
    map_of homework ''status'' = Some homework_status \<and>
    hashable homework_status \<and>
    homework_status \<notin> {PStr ''approved'', PStr ''reviewing'', PStr ''rejected''} \<longrightarrow>
      parse_status other homework =
        Inl (Exn KeyError (text_unknown_status @ py_str other homework_status)))"
proof (intro conjI impI)
  show "parse_status other [(''homework_name'', PStr ''task1''), (''status'', PStr ''approved'')] =
      Inr scenario_1_text"
    unfolding scenario_1_text_parts
    by (rule parse_status_known [OF verdict_table(1)]) simp_all
next
  assume "map_of homework ''homework_name'' = Some (PStr name) \<and>
    map_of homework ''status'' = Some (PStr status)" and "status = ''approved''"
  then show "parse_status other homework =
      Inr (text_status_changed @ [CHR 0x22] @ name @ [CHR 0x22] @ ''. '' @ verdict_approved)"
    by (simp add: parse_status_known [OF verdict_table(1)])
next
  assume "map_of homework ''homework_name'' = Some (PStr name) \<and>
    map_of homework ''status'' = Some (PStr status)" and "status = ''reviewing''"
  then show "parse_status other homework =
      Inr (text_status_changed @ [CHR 0x22] @ name @ [CHR 0x22] @ ''. '' @ verdict_reviewing)"
    by (simp add: parse_status_known [OF verdict_table(2)])
next
  assume "map_of homework ''homework_name'' = Some (PStr name) \<and>
    map_of homework ''status'' = Some (PStr status)" and "status = ''rejected''"
  then show "parse_status other homework =
      Inr (text_status_changed @ [CHR 0x22] @ name @ [CHR 0x22] @ ''. '' @ verdict_rejected)"
    by (simp add: parse_status_known [OF verdict_table(3)])
next
  assume "map_of homework ''homework_name'' = Some (PStr name) \<and>
    map_of homework ''status'' = Some (PStr status)"
    and "status \<notin> {''approved'', ''reviewing'', ''rejected''}"
  then show "parse_status other homework = Inl (Exn KeyError (text_unknown_status @ status))"
    using parse_status_unknown [of homework "PStr name" "PStr status" other]
    by (simp add: py_str_def)
next
  assume "map_of homework ''homework_name'' = Some homework_name \<and>
    map_of homework ''status'' = Some homework_status \<and>
    hashable homework_status \<and>
    homework_status \<notin> {PStr ''approved'', PStr ''reviewing'', PStr ''rejected''}"
  then show "parse_status other homework =
      Inl (Exn KeyError (text_unknown_status @ py_str other homework_status))"
    by (simp add: parse_status_unknown)
qed

theorem parse_status_verdicts_witness:
  "parse_status no_text [(''status'', PStr ''rejected''), (''homework_name'', PStr ''hw'')] =
     Inr (text_status_changed @ [CHR 0x22] @ ''hw'' @ [CHR 0x22] @ ''. '' @ verdict_rejected) \<and>
   parse_status no_text [(''status'', PStr ''done''), (''homework_name'', PStr ''hw'')] =
     Inl (Exn KeyError (text_unknown_status @ ''done'')) \<and>
   parse_status no_text [(''status'', PInt 7), (''homework_name'', PStr ''hw'')] =
     Inl (Exn KeyError (text_unknown_status @ py_str no_text (PInt 7)))"
proof (intro conjI)
  show "parse_status no_text [(''status'', PStr ''rejected''), (''homework_name'', PStr ''hw'')] =
     Inr (text_status_changed @ [CHR 0x22] @ ''hw'' @ [CHR 0x22] @ ''. '' @ verdict_rejected)"
    using parse_status_verdicts
          [of no_text "[(''status'', PStr ''rejected''), (''homework_name'', PStr ''hw'')]"
              "''hw''" "''rejected''" "PStr ''hw''" "PStr ''rejected''"]
    by simp
  show "parse_status no_text [(''status'', PStr ''done''), (''homework_name'', PStr ''hw'')] =
     Inl (Exn KeyError (text_unknown_status @ ''done''))"
    using parse_status_verdicts
          [of no_text "[(''status'', PStr ''done''), (''homework_name'', PStr ''hw'')]"
              "''hw''" "''done''" "PStr ''hw''" "PStr ''done''"]
    by simp
  show "parse_status no_text [(''status'', PInt 7), (''homework_name'', PStr ''hw'')] =
     Inl (Exn KeyError (text_unknown_status @ py_str no_text (PInt 7)))"
    using parse_status_verdicts
          [of no_text "[(''status'', PInt 7), (''homework_name'', PStr ''hw'')]"
              "''hw''" "''x''" "PStr ''hw''" "PInt 7"]
    by simp
qed

section \<open>The poll loop\<close>

lemma text_no_homeworks_not_empty: "text_no_homeworks \<noteq> ''''"
  by (simp add: text_no_homeworks_def)

lemma RETRY_PERIOD_600: "RETRY_PERIOD = 600"
  by (simp add: RETRY_PERIOD_def)

text \<open>What a cycle does on each of its paths.\<close>

lemma cycle_fetch_fails:
  "get_api_answer (http env) (timestamp st) = Inl e \<Longrightarrow>
   cycle other env st = (st, [Get (timestamp st), LogError e, Sleep 600])"
  by (simp add: cycle_def cycle_body_def RETRY_PERIOD_def)

lemma cycle_validate_fails:
  "get_api_answer (http env) (timestamp st) = Inr response \<Longrightarrow>
   check_response response = Inl e \<Longrightarrow>
   cycle other env st = (st, [Get (timestamp st), LogError e, Sleep 600])"
  by (simp add: cycle_def cycle_body_def RETRY_PERIOD_def)

lemma cycle_resolve_fails:
  "get_api_answer (http env) (timestamp st) = Inr response \<Longrightarrow>
   check_response response = Inr (first # rest) \<Longrightarrow>
   parse_status other first = Inl e \<Longrightarrow>
   cycle other env st = (st, [Get (timestamp st), LogError e, Sleep 600])"
  by (simp add: cycle_def cycle_body_def RETRY_PERIOD_def)

lemma cycle_same_verdict:
  "get_api_answer (http env) (timestamp st) = Inr response \<Longrightarrow>
   check_response response = Inr (first # rest) \<Longrightarrow>
   parse_status other first = Inr (last_status st) \<Longrightarrow>
   cycle other env st = (st, [Get (timestamp st), Sleep 600])"
  by (simp add: cycle_def cycle_body_def RETRY_PERIOD_def)

lemma cycle_new_verdict_sent:
  "get_api_answer (http env) (timestamp st) = Inr response \<Longrightarrow>
   check_response response = Inr (first # rest) \<Longrightarrow>
   parse_status other first = Inr v \<Longrightarrow>
   v \<noteq> last_status st \<Longrightarrow>
   send_message (telegram env) v = Inr u \<Longrightarrow>
   cycle other env st =
     (st\<lparr>last_status := v\<rparr>, [Get (timestamp st), BotSend v, Sleep 600])"
  by (simp add: cycle_def cycle_body_def RETRY_PERIOD_def)

lemma cycle_new_verdict_fails:
  "get_api_answer (http env) (timestamp st) = Inr response \<Longrightarrow>
   check_response response = Inr (first # rest) \<Longrightarrow>
   parse_status other first = Inr v \<Longrightarrow>
   v \<noteq> last_status st \<Longrightarrow>
   send_message (telegram env) v = Inl e \<Longrightarrow>
   cycle other env st = (st, [Get (timestamp st), BotSend v, LogError e, Sleep 600])"
  by (simp add: cycle_def cycle_body_def RETRY_PERIOD_def)

lemma cycle_empty_sent:
  "get_api_answer (http env) (timestamp st) = Inr response \<Longrightarrow>
   check_response response = Inr [] \<Longrightarrow>
   last_status st = '''' \<Longrightarrow>
   send_message (telegram env) text_no_homeworks = Inr u \<Longrightarrow>
   cycle other env st = (st, [Get (timestamp st), BotSend text_no_homeworks, Sleep 600])"
  by (simp add: cycle_def cycle_body_def RETRY_PERIOD_def)

lemma cycle_empty_fails:
  "get_api_answer (http env) (timestamp st) = Inr response \<Longrightarrow>
   check_response response = Inr [] \<Longrightarrow>
   last_status st = '''' \<Longrightarrow>
   send_message (telegram env) text_no_homeworks = Inl e \<Longrightarrow>
   cycle other env st =
     (st, [Get (timestamp st), BotSend text_no_homeworks, LogError e, Sleep 600])"
  by (simp add: cycle_def cycle_body_def RETRY_PERIOD_def)

lemma cycle_empty_silent:
  "get_api_answer (http env) (timestamp st) = Inr response \<Longrightarrow>
   check_response response = Inr [] \<Longrightarrow>
   last_status st \<noteq> '''' \<Longrightarrow>
   cycle other env st = (st, [Get (timestamp st), Sleep 600])"
  by (simp add: cycle_def cycle_body_def RETRY_PERIOD_def)

text \<open>The shape of every cycle, whatever its path.\<close>

lemma cycle_shape:
  "\<exists>st' mid. cycle other env st = (st', Get (timestamp st) # mid @ [Sleep 600]) \<and>
     timestamp st' = timestamp st \<and>
     (\<forall>ev \<in> set mid. \<not> is_Get ev \<and> ev \<noteq> Sleep 600)"
proof (cases "get_api_answer (http env) (timestamp st)")
  case (Inl e)
  then show ?thesis by (simp add: cycle_fetch_fails)
next
  case (Inr response)
  note fetch = this
  show ?thesis
  proof (cases "check_response response")
    case (Inl e)
    with fetch show ?thesis by (simp add: cycle_validate_fails)
  next
    case (Inr homework)
    note valid = this
    show ?thesis
    proof (cases homework)
      case Nil
      show ?thesis
      proof (cases "last_status st = ''''")
        case True
        show ?thesis
        proof (cases "send_message (telegram env) text_no_homeworks")
          case (Inl e)
          with fetch valid Nil True show ?thesis by (simp add: cycle_empty_fails)
        next
          case (Inr u)
          with fetch valid Nil True show ?thesis by (simp add: cycle_empty_sent)
        qed
      next
        case False
        with fetch valid Nil show ?thesis by (simp add: cycle_empty_silent)
      qed
    next
      case (Cons first rest)
      show ?thesis
      proof (cases "parse_status other first")
        case (Inl e)
        with fetch valid Cons show ?thesis by (simp add: cycle_resolve_fails)
      next
        case (Inr v)
        note parsed = this
        show ?thesis
        proof (cases "v = last_status st")
          case True
          with fetch valid Cons parsed show ?thesis by (simp add: cycle_same_verdict)
        next
          case False
          show ?thesis
          proof (cases "send_message (telegram env) v")
            case (Inl e)
            with fetch valid Cons parsed False show ?thesis
              by (simp add: cycle_new_verdict_fails)
          next
            case (Inr u)
            with fetch valid Cons parsed False show ?thesis
              by (simp add: cycle_new_verdict_sent)
          qed
        qed
      qed
    qed
  qed
qed

lemma cycle_timestamp: "timestamp (fst (cycle other env st)) = timestamp st"
  using cycle_shape [of other env st] by auto

lemma cycle_gets: "filter is_Get (snd (cycle other env st)) = [Get (timestamp st)]"
proof -
  obtain st' mid where c: "cycle other env st = (st', Get (timestamp st) # mid @ [Sleep 600])"
    and m: "\<forall>ev \<in> set mid. \<not> is_Get ev \<and> ev \<noteq> Sleep 600"
    using cycle_shape [of other env st] by blast
  from m have "filter is_Get mid = []" by (simp add: filter_empty_conv)
  with c show ?thesis by simp
qed

lemma cycle_sleeps: "filter (\<lambda>ev. ev = Sleep 600) (snd (cycle other env st)) = [Sleep 600]"
proof -
  obtain st' mid where c: "cycle other env st = (st', Get (timestamp st) # mid @ [Sleep 600])"
    and m: "\<forall>ev \<in> set mid. \<not> is_Get ev \<and> ev \<noteq> Sleep 600"
    using cycle_shape [of other env st] by blast
  from m have "filter (\<lambda>ev. ev = Sleep 600) mid = []" by (simp add: filter_empty_conv)
  with c show ?thesis by simp
qed

lemma run_Cons:
  "run other (env # envs) st =
     (fst (run other envs (fst (cycle other env st))),
      snd (cycle other env st) @ snd (run other envs (fst (cycle other env st))))"
  by (simp add: case_prod_beta)

lemma run_timestamp: "timestamp (fst (run other envs st)) = timestamp st"
proof (induction envs arbitrary: st)
  case Nil
  show ?case by simp
next
  case (Cons env envs)
  show ?case
    unfolding run_Cons by (simp add: Cons.IH cycle_timestamp)
qed

lemma run_gets:
  "filter is_Get (snd (run other envs st)) = replicate (length envs) (Get (timestamp st))"
proof (induction envs arbitrary: st)
  case Nil
  show ?case by simp
next
  case (Cons env envs)
  show ?case
    unfolding run_Cons by (simp add: Cons.IH cycle_gets cycle_timestamp)
qed

lemma run_sleeps:
  "filter (\<lambda>ev. ev = Sleep 600) (snd (run other envs st)) =
     replicate (length envs) (Sleep 600)"
proof (induction envs arbitrary: st)
  case Nil
  show ?case by simp
next
  case (Cons env envs)
  show ?case
    unfolding run_Cons by (simp add: Cons.IH cycle_sleeps)
qed

lemma cycle_unresolved:
  "resolved_verdict other env (timestamp st) = None \<Longrightarrow>
   fst (cycle other env st) = st \<and>
   (\<forall>m. BotSend m \<in> set (snd (cycle other env st)) \<longrightarrow>
      m = text_no_homeworks \<and> last_status st = '''')"
  by (auto simp add: Let_def cycle_def cycle_body_def resolved_verdict_def observed_homeworks_def
      split: sum.splits list.splits if_splits)

lemma cycle_resolved_same:
  "resolved_verdict other env (timestamp st) = Some (last_status st) \<Longrightarrow>
   cycle other env st = (st, [Get (timestamp st), Sleep 600])"
  by (auto simp add: Let_def cycle_def cycle_body_def resolved_verdict_def observed_homeworks_def
      RETRY_PERIOD_def split: sum.splits list.splits if_splits)

lemma cycle_resolved_new:
  "resolved_verdict other env (timestamp st) = Some v \<Longrightarrow> v \<noteq> last_status st \<Longrightarrow>
   cycle other env st =
     (case send_message (telegram env) v of
        Inl e \<Rightarrow> (st, [Get (timestamp st), BotSend v, LogError e, Sleep 600])
      | Inr u \<Rightarrow> (st\<lparr>last_status := v\<rparr>, [Get (timestamp st), BotSend v, Sleep 600]))"
  by (auto simp add: Let_def cycle_def cycle_body_def resolved_verdict_def observed_homeworks_def
      RETRY_PERIOD_def split: sum.splits list.splits if_splits)

lemma cycle_observed_empty:
  "observed_homeworks env (timestamp st) = Some [] \<Longrightarrow>
   cycle other env st =
     (if last_status st = ''''
      then (case send_message (telegram env) text_no_homeworks of
              Inl e \<Rightarrow>
                (st, [Get (timestamp st), BotSend text_no_homeworks, LogError e, Sleep 600])
            | Inr u \<Rightarrow> (st, [Get (timestamp st), BotSend text_no_homeworks, Sleep 600]))
      else (st, [Get (timestamp st), Sleep 600]))"
  by (auto simp add: Let_def cycle_def cycle_body_def observed_homeworks_def
      RETRY_PERIOD_def split: sum.splits list.splits if_splits)

lemma cycle_no_other_verdict:
  assumes "resolved_verdict other env (timestamp st) \<in> {None, Some (last_status st)}"
  shows "fst (cycle other env st) = st \<and>
         BotSend (last_status st) \<notin> set (snd (cycle other env st))"
proof (cases "resolved_verdict other env (timestamp st)")
  case None
  then show ?thesis
    using cycle_unresolved [of other env st] text_no_homeworks_not_empty by auto
next
  case (Some v)
  with assms have "v = last_status st" by simp
  with Some show ?thesis by (simp add: cycle_resolved_same)
qed

lemma run_no_other_verdict:
  "\<forall>env \<in> set envs. resolved_verdict other env (timestamp st) \<in> {None, Some (last_status st)} \<Longrightarrow>
   fst (run other envs st) = st \<and> BotSend (last_status st) \<notin> set (snd (run other envs st))"
proof (induction envs)
  case Nil
  show ?case by simp
next
  case (Cons env envs)
  from Cons.prems have one: "fst (cycle other env st) = st"
    and quiet: "BotSend (last_status st) \<notin> set (snd (cycle other env st))"
    using cycle_no_other_verdict [of other env st] by simp_all
  from Cons have rest: "fst (run other envs st) = st"
    "BotSend (last_status st) \<notin> set (snd (run other envs st))"
    by simp_all
  show ?case
    unfolding run_Cons using one quiet rest by simp
qed

text \<open>
  C4. In a state whose \<open>last_status\<close> is the verdict \<open>V\<close>, a cycle that resolves \<open>V\<close> again
  sends nothing and leaves the state as it is. Over any number of cycles in which no
  other verdict is resolved (each cycle resolves \<open>V\<close> or none), \<open>V\<close> is never sent and the
  state stays the same: a second send of \<open>V\<close> needs a different verdict first.
\<close>

theorem dedupe_gate_idempotent:
  "last_status st = V \<Longrightarrow>
   (resolved_verdict other env (timestamp st) = Some V \<longrightarrow>
      cycle other env st = (st, [Get (timestamp st), Sleep 600])) \<and>
   ((\<forall>env \<in> set envs. resolved_verdict other env (timestamp st) \<in> {None, Some V}) \<longrightarrow>
      fst (run other envs st) = st \<and> BotSend V \<notin> set (snd (run other envs st)))"
  using cycle_resolved_same [of other env st] run_no_other_verdict [of envs other st]
  by blast

text \<open>
  C5. A cycle in which \<open>bot.send_message\<close> raises leaves the state, and with it
  \<open>last_status\<close>, unchanged. When that cycle resolved a verdict different from
  \<open>last_status\<close>, the failure is logged, and any next cycle that resolves the same verdict
  calls \<open>bot.send_message\<close> with it again.
\<close>

theorem send_failure_keeps_status:
  "telegram env = SendRaises e \<Longrightarrow>
   fst (cycle other env st) = st \<and>
   (resolved_verdict other env (timestamp st) = Some V \<and> V \<noteq> last_status st \<longrightarrow>
      (\<exists>x. send_message (SendRaises e) V = Inl x \<and>
           cycle other env st =
             (st, [Get (timestamp st), BotSend V, LogError x, Sleep 600])) \<and>
      (\<forall>env'. resolved_verdict other env' (timestamp st) = Some V \<longrightarrow>
           BotSend V \<in> set (snd (cycle other env' (fst (cycle other env st))))))"
proof -
  assume fails: "telegram env = SendRaises e"
  have raises: "\<exists>x. send_message (SendRaises e) m = Inl x" for m
    by (simp add: send_message_def)
  have unchanged: "fst (cycle other env st) = st"
  proof (cases "resolved_verdict other env (timestamp st)")
    case None
    then show ?thesis by (simp add: cycle_unresolved)
  next
    case (Some v)
    show ?thesis
    proof (cases "v = last_status st")
      case True
      with Some show ?thesis by (simp add: cycle_resolved_same)
    next
      case False
      with Some fails raises [of v] show ?thesis
        by (auto simp add: cycle_resolved_new)
    qed
  qed
  have retry: "BotSend V \<in> set (snd (cycle other env' st))"
    if "resolved_verdict other env' (timestamp st) = Some V" "V \<noteq> last_status st" for env'
    using that by (simp add: cycle_resolved_new split: sum.splits)
  have logged: "\<exists>x. send_message (SendRaises e) V = Inl x \<and>
      cycle other env st = (st, [Get (timestamp st), BotSend V, LogError x, Sleep 600])"
    if "resolved_verdict other env (timestamp st) = Some V" "V \<noteq> last_status st"
    using that fails raises [of V] by (auto simp add: cycle_resolved_new)
  show ?thesis
    using unchanged retry logged by simp
qed

text \<open>
  C1, as the specification states it, fails: two consecutive cycles that observe an
  empty homeworks sequence, with both sends successful, send the notice twice.
\<close>

theorem no_homeworks_notice_repeats_counterexample:
  "run no_text
     [\<lparr>http = HttpResponse 200
               (Inr (PDict [(''homeworks'', PList []), (''current_date'', PInt 1700000000)])),
       telegram = SendOk\<rparr>,
      \<lparr>http = HttpResponse 200
               (Inr (PDict [(''homeworks'', PList []), (''current_date'', PInt 1700000000)])),
       telegram = SendOk\<rparr>]
     (initial_state 1700000000) =
   (initial_state 1700000000,
    [Get 1700000000, BotSend text_no_homeworks, Sleep 600,
     Get 1700000000, BotSend text_no_homeworks, Sleep 600])"
  by (simp add: cycle_def cycle_body_def get_api_answer_def check_response_def
      send_message_def initial_state_def RETRY_PERIOD_def)

lemma run_all_empty:
  "last_status st = '''' \<Longrightarrow>
   \<forall>env \<in> set envs. observed_homeworks env (timestamp st) = Some [] \<and> telegram env = SendOk \<Longrightarrow>
   run other envs st =
     (st, concat (map (\<lambda>env. [Get (timestamp st), BotSend text_no_homeworks, Sleep 600]) envs))"
proof (induction envs)
  case Nil
  show ?case by simp
next
  case (Cons env envs)
  from Cons.prems have "cycle other env st =
      (st, [Get (timestamp st), BotSend text_no_homeworks, Sleep 600])"
    by (simp add: cycle_observed_empty send_message_def)
  moreover from Cons have "run other envs st =
      (st, concat (map (\<lambda>env. [Get (timestamp st), BotSend text_no_homeworks, Sleep 600]) envs))"
    by simp
  ultimately show ?case by simp
qed

text \<open>
  C1, amended. While \<open>last_status\<close> is still the empty string, every cycle that observes
  an empty homeworks sequence sends the notice "No works under review.", and a
  successful send leaves \<open>last_status\<close> empty, so the next such cycle sends it again. Once
  \<open>last_status\<close> is not empty, a cycle that observes an empty sequence sends nothing.
\<close>

theorem no_homeworks_notice_while_sentinel:
  "(last_status st = '''' \<and>
    (\<forall>env \<in> set envs.
       observed_homeworks env (timestamp st) = Some [] \<and> telegram env = SendOk) \<longrightarrow>
      run other envs st =
        (st, concat (map (\<lambda>env. [Get (timestamp st), BotSend text_no_homeworks, Sleep 600])
                         envs))) \<and>
   (last_status st \<noteq> '''' \<and> observed_homeworks env (timestamp st) = Some [] \<longrightarrow>
      cycle other env st = (st, [Get (timestamp st), Sleep 600]))"
  using run_all_empty [of st envs other] cycle_observed_empty [of env st other]
  by simp

text \<open>
  C6. An exception raised by the fetch, the validation, the resolution or the
  notification ends the cycle with the error logged by the handler, the state unchanged
  and the sleep of 600 seconds; every cycle ends with that sleep; and a run of any
  number of cycles, failing or not, sleeps once per cycle, so no failure stops the loop.
\<close>

theorem cycle_failures_contained:
  "(get_api_answer (http env) (timestamp st) = Inl e \<longrightarrow>
      cycle other env st = (st, [Get (timestamp st), LogError e, Sleep 600])) \<and>
   (get_api_answer (http env) (timestamp st) = Inr response \<and>
    check_response response = Inl e \<longrightarrow>
      cycle other env st = (st, [Get (timestamp st), LogError e, Sleep 600])) \<and>
   (get_api_answer (http env) (timestamp st) = Inr response \<and>
    check_response response = Inr (first # rest) \<and>
    parse_status other first = Inl e \<longrightarrow>
      cycle other env st = (st, [Get (timestamp st), LogError e, Sleep 600])) \<and>
   (get_api_answer (http env) (timestamp st) = Inr response \<and>
    check_response response = Inr homework \<and>
    (homework = first # rest \<and> parse_status other first = Inr m \<and> m \<noteq> last_status st \<or>
     homework = [] \<and> last_status st = '''' \<and> m = text_no_homeworks) \<and>
    send_message (telegram env) m = Inl e \<longrightarrow>
      cycle other env st = (st, [Get (timestamp st), BotSend m, LogError e, Sleep 600])) \<and>
   (\<exists>st' evs. cycle other env st = (st', evs @ [Sleep 600])) \<and>
   filter (\<lambda>ev. ev = Sleep 600) (snd (run other envs st)) =
     replicate (length envs) (Sleep 600) \<and>
   RETRY_PERIOD = 600"
proof -
  have ends: "\<exists>st' evs. cycle other env st = (st', evs @ [Sleep 600])"
  proof -
    obtain st' mid where "cycle other env st = (st', Get (timestamp st) # mid @ [Sleep 600])"
      using cycle_shape [of other env st] by blast
    then have "cycle other env st = (st', (Get (timestamp st) # mid) @ [Sleep 600])"
      by simp
    then show ?thesis by blast
  qed
  have send: "get_api_answer (http env) (timestamp st) = Inr response \<and>
    check_response response = Inr homework \<and>
    (homework = first # rest \<and> parse_status other first = Inr m \<and> m \<noteq> last_status st \<or>
     homework = [] \<and> last_status st = '''' \<and> m = text_no_homeworks) \<and>
    send_message (telegram env) m = Inl e \<longrightarrow>
      cycle other env st = (st, [Get (timestamp st), BotSend m, LogError e, Sleep 600])"
    using cycle_new_verdict_fails [of env st response first rest other m e]
      cycle_empty_fails [of env st response e other]
    by blast
  show ?thesis
    using ends send
    by (simp add: cycle_fetch_fails cycle_validate_fails cycle_resolve_fails run_sleeps
        RETRY_PERIOD_600)
qed

text \<open>
  A process whose bot cannot be constructed never reaches the loop: the exception of
  line 245 ends it, before the timestamp of line 246 is taken.
\<close>

lemma main_bot_raises:
  "all_tokens_set env \<Longrightarrow> main other env (BotRaises e) now envs = Uncaught e"
  by (simp add: main_def check_tokens_def all_tokens_set_def)

text \<open>
  C8. The cursor is the timestamp that the loop starts with, the current time \<open>now\<close>
  taken once on line 246. No cycle changes it: after any number of cycles, from any
  state, the timestamp is the one the run started with, and each cycle has sent exactly
  one request, with that value as \<open>from_date\<close>, whatever \<open>current_date\<close> the responses
  carried. For the process as a whole: with the three credentials present and the bot
  constructed, \<open>main\<close> loops, its timestamp after any number of cycles is \<open>now\<close>, and it
  has sent one request with \<open>from_date = now\<close> per cycle.
\<close>

theorem poll_cursor_fixed:
  "timestamp (initial_state now) = now \<and>
   timestamp (fst (run other envs st)) = timestamp st \<and>
   filter is_Get (snd (run other envs st)) = replicate (length envs) (Get (timestamp st)) \<and>
   (all_tokens_set env \<and> new_bot = BotCreated \<longrightarrow>
      (\<exists>st' evs. main other env new_bot now envs = Looping st' evs \<and>
         timestamp st' = now \<and>
         filter is_Get evs = replicate (length envs) (Get now)))"
proof -
  have start: "timestamp (initial_state now) = now"
    by (simp add: initial_state_def)
  have loops: "\<exists>st' evs. main other env new_bot now envs = Looping st' evs \<and>
      timestamp st' = now \<and> filter is_Get evs = replicate (length envs) (Get now)"
    if "all_tokens_set env" "new_bot = BotCreated"
  proof -
    from that have "main other env new_bot now envs =
        Looping (fst (run other envs (initial_state now)))
                (snd (run other envs (initial_state now)))"
      by (simp add: main_def check_tokens_def all_tokens_set_def case_prod_beta)
    then show ?thesis
      using start run_timestamp [of other envs "initial_state now"]
        run_gets [of other envs "initial_state now"]
      by simp
  qed
  show ?thesis
    using start loops by (simp add: run_timestamp run_gets)
qed

subsection \<open>The loop on the scenarios of the specification\<close>

lemma scenario_1_text_not_empty: "scenario_1_text \<noteq> ''''"
  by (simp add: scenario_1_text_def)

lemma scenario_1_resolves:
  "resolved_verdict other \<lparr>http = HttpResponse 200 (Inr scenario_1_response), telegram = t\<rparr> ts =
     Some scenario_1_text"
proof -
  have "parse_status other [(''homework_name'', PStr ''task1''), (''status'', PStr ''approved'')] =
      Inr scenario_1_text"
    unfolding scenario_1_text_parts
    by (rule parse_status_known [OF verdict_table(1)]) simp_all
  then show ?thesis
    by (simp add: resolved_verdict_def observed_homeworks_def get_api_answer_def
        check_response_def scenario_1_response_def)
qed

lemma scenario_2_observed:
  "observed_homeworks \<lparr>http = HttpResponse 200 (Inr scenario_2_response), telegram = t\<rparr> ts =
     Some []"
  by (simp add: observed_homeworks_def get_api_answer_def check_response_def
      scenario_2_response_def)

theorem no_homeworks_notice_while_sentinel_witness:
  "run no_text
     [\<lparr>http = HttpResponse 200 (Inr scenario_2_response), telegram = SendOk\<rparr>,
      \<lparr>http = HttpResponse 200 (Inr scenario_2_response), telegram = SendOk\<rparr>,
      \<lparr>http = HttpResponse 200 (Inr scenario_2_response), telegram = SendOk\<rparr>]
     \<lparr>timestamp = 1700000000, last_status = ''''\<rparr> =
     (\<lparr>timestamp = 1700000000, last_status = ''''\<rparr>,
      [Get 1700000000, BotSend text_no_homeworks, Sleep 600,
       Get 1700000000, BotSend text_no_homeworks, Sleep 600,
       Get 1700000000, BotSend text_no_homeworks, Sleep 600]) \<and>
   cycle no_text
     \<lparr>http = HttpResponse 200 (Inr scenario_2_response), telegram = SendOk\<rparr>
     \<lparr>timestamp = 1700000000, last_status = scenario_1_text\<rparr> =
     (\<lparr>timestamp = 1700000000, last_status = scenario_1_text\<rparr>,
      [Get 1700000000, Sleep 600])"
  using no_homeworks_notice_while_sentinel
          [where other = no_text
             and st = "\<lparr>timestamp = 1700000000, last_status = ''''\<rparr>"
             and env = "\<lparr>http = HttpResponse 200 (Inr scenario_2_response), telegram = SendOk\<rparr>"
             and envs = "[\<lparr>http = HttpResponse 200 (Inr scenario_2_response), telegram = SendOk\<rparr>,
                          \<lparr>http = HttpResponse 200 (Inr scenario_2_response), telegram = SendOk\<rparr>,
                          \<lparr>http = HttpResponse 200 (Inr scenario_2_response), telegram = SendOk\<rparr>]"]
        no_homeworks_notice_while_sentinel
          [where other = no_text
             and st = "\<lparr>timestamp = 1700000000, last_status = scenario_1_text\<rparr>"
             and env = "\<lparr>http = HttpResponse 200 (Inr scenario_2_response), telegram = SendOk\<rparr>"
             and envs = "[]"]
  by (simp add: scenario_2_observed scenario_1_text_not_empty)

theorem dedupe_gate_idempotent_witness:
  "cycle no_text
     \<lparr>http = HttpResponse 200 (Inr scenario_1_response), telegram = SendOk\<rparr>
     \<lparr>timestamp = 1700000000, last_status = scenario_1_text\<rparr> =
     (\<lparr>timestamp = 1700000000, last_status = scenario_1_text\<rparr>,
      [Get 1700000000, Sleep 600]) \<and>
   fst (run no_text
          [\<lparr>http = HttpResponse 200 (Inr scenario_1_response), telegram = SendOk\<rparr>,
           \<lparr>http = HttpResponse 200 (Inr scenario_2_response), telegram = SendOk\<rparr>,
           \<lparr>http = HttpResponse 200 (Inr scenario_1_response), telegram = SendOk\<rparr>]
          \<lparr>timestamp = 1700000000, last_status = scenario_1_text\<rparr>) =
     \<lparr>timestamp = 1700000000, last_status = scenario_1_text\<rparr> \<and>
   BotSend scenario_1_text \<notin>
     set (snd (run no_text
          [\<lparr>http = HttpResponse 200 (Inr scenario_1_response), telegram = SendOk\<rparr>,
           \<lparr>http = HttpResponse 200 (Inr scenario_2_response), telegram = SendOk\<rparr>,
           \<lparr>http = HttpResponse 200 (Inr scenario_1_response), telegram = SendOk\<rparr>]
          \<lparr>timestamp = 1700000000, last_status = scenario_1_text\<rparr>))"
proof -
  have empty: "resolved_verdict other
      \<lparr>http = HttpResponse 200 (Inr scenario_2_response), telegram = t\<rparr> ts = None"
    for other t ts
    by (simp add: resolved_verdict_def scenario_2_observed)
  show ?thesis
    using dedupe_gate_idempotent
          [where other = no_text and V = scenario_1_text
             and st = "\<lparr>timestamp = 1700000000, last_status = scenario_1_text\<rparr>"
             and env = "\<lparr>http = HttpResponse 200 (Inr scenario_1_response), telegram = SendOk\<rparr>"
             and envs = "[\<lparr>http = HttpResponse 200 (Inr scenario_1_response), telegram = SendOk\<rparr>,
                          \<lparr>http = HttpResponse 200 (Inr scenario_2_response), telegram = SendOk\<rparr>,
                          \<lparr>http = HttpResponse 200 (Inr scenario_1_response), telegram = SendOk\<rparr>]"]
    by (simp add: scenario_1_resolves empty del: run.simps)
qed

theorem send_failure_keeps_status_witness:
  "cycle no_text
     \<lparr>http = HttpResponse 200 (Inr scenario_1_response),
      telegram = SendRaises (Exn NetworkError ''down'')\<rparr>
     \<lparr>timestamp = 1700000000, last_status = ''''\<rparr> =
     (\<lparr>timestamp = 1700000000, last_status = ''''\<rparr>,
      [Get 1700000000, BotSend scenario_1_text,
       LogError (Exn SendMessageError (text_send_failed @ ''down'')), Sleep 600]) \<and>
   BotSend scenario_1_text \<in>
     set (snd (cycle no_text
       \<lparr>http = HttpResponse 200 (Inr scenario_1_response), telegram = SendOk\<rparr>
       (fst (cycle no_text
          \<lparr>http = HttpResponse 200 (Inr scenario_1_response),
           telegram = SendRaises (Exn NetworkError ''down'')\<rparr>
          \<lparr>timestamp = 1700000000, last_status = ''''\<rparr>))))"
  using send_failure_keeps_status
          [where other = no_text and V = scenario_1_text
             and e = "Exn NetworkError ''down''"
             and st = "\<lparr>timestamp = 1700000000, last_status = ''''\<rparr>"
             and env = "\<lparr>http = HttpResponse 200 (Inr scenario_1_response),
                         telegram = SendRaises (Exn NetworkError ''down'')\<rparr>"]
        scenario_1_text_not_empty
        scenario_1_resolves [of no_text SendOk 1700000000]
  by (auto simp add: scenario_1_resolves send_message_def)

theorem cycle_failures_contained_witness:
  "cycle no_text \<lparr>http = HttpResponse 500 (Inr PNone), telegram = SendOk\<rparr>
     \<lparr>timestamp = 1700000000, last_status = ''''\<rparr> =
     (\<lparr>timestamp = 1700000000, last_status = ''''\<rparr>,
      [Get 1700000000,
       LogError (Exn EndpointStatusError (status_message 1700000000 500)),
       Sleep 600])"
  using cycle_failures_contained
          [where other = no_text
             and env = "\<lparr>http = HttpResponse 500 (Inr PNone), telegram = SendOk\<rparr>"
             and st = "\<lparr>timestamp = 1700000000, last_status = ''''\<rparr>"
             and e = "Exn EndpointStatusError (status_message 1700000000 500)"
             and response = PNone and first = "[]" and rest = "[]" and homework = "[]"
             and m = "''''" and envs = "[]"]
  by (simp add: get_api_answer_def request_handlers_def)

theorem poll_cursor_fixed_witness:
  "all_tokens_set
     \<lparr>PRACTICUM_TOKEN = Some ''y0_practicum'',
      TELEGRAM_TOKEN = Some ''123456:ABC-DEF1234ghIkl-zyx57W2v1u123ew11'',
      TELEGRAM_CHAT_ID = Some ''987654321''\<rparr> \<and>
   (\<exists>st' evs.
      main no_text
        \<lparr>PRACTICUM_TOKEN = Some ''y0_practicum'',
         TELEGRAM_TOKEN = Some ''123456:ABC-DEF1234ghIkl-zyx57W2v1u123ew11'',
         TELEGRAM_CHAT_ID = Some ''987654321''\<rparr>
        BotCreated 1600000000
        [\<lparr>http = HttpResponse 200 (Inr scenario_1_response), telegram = SendOk\<rparr>,
         \<lparr>http = HttpResponse 200 (Inr scenario_2_response), telegram = SendOk\<rparr>] =
        Looping st' evs \<and>
      timestamp st' = 1600000000 \<and>
      filter is_Get evs = [Get 1600000000, Get 1600000000])"
  using poll_cursor_fixed
          [where other = no_text
             and env = "\<lparr>PRACTICUM_TOKEN = Some ''y0_practicum'',
                         TELEGRAM_TOKEN = Some ''123456:ABC-DEF1234ghIkl-zyx57W2v1u123ew11'',
                         TELEGRAM_CHAT_ID = Some ''987654321''\<rparr>"
             and new_bot = BotCreated
             and now = 1600000000
             and st = "initial_state 1600000000"
             and envs = "[\<lparr>http = HttpResponse 200 (Inr scenario_1_response), telegram = SendOk\<rparr>,
                          \<lparr>http = HttpResponse 200 (Inr scenario_2_response), telegram = SendOk\<rparr>]"]
  by (simp add: all_tokens_set_def del: run.simps)

end
